theory Spec2Isabelle
  imports Main "HOL-Library.Sublist" "HOL-Library.AList"
begin

section \<open>Strings and dictionaries of the program\<close>

text \<open>
  A Python \<open>str\<close> is modelled as a \<^typ>\<open>string\<close> holding its UTF-8 encoding, the form in
  which the program writes it to disk (\<open>encoding='utf-8'\<close>). The program only compares,
  concatenates and stores strings, so nothing depends on the difference between bytes and
  code points. The backslash cannot occur inside a string literal and is written \<open>bs\<close>.
\<close>

abbreviation bs :: string where
  "bs \<equiv> [CHR 0x5C]"

text \<open>The two checkbox glyphs of the card, \<open>$\boxtimes$\<close> and \<open>$\square$\<close> in the source.\<close>

abbreviation boxtimes :: string where
  "boxtimes \<equiv> ''$'' @ bs @ ''boxtimes$''"

abbreviation square :: string where
  "square \<equiv> ''$'' @ bs @ ''square$''"

datatype error = KeyError string

text \<open>\<open>d[key]\<close> raises \<open>KeyError\<close> on an absent key; \<open>d.get(key, default)\<close> does not.\<close>

definition dict_getitem :: "(string \<rightharpoonup> 'v) \<Rightarrow> string \<Rightarrow> error + 'v" where
  "dict_getitem d key = (case d key of None \<Rightarrow> Inl (KeyError key) | Some v \<Rightarrow> Inr v)"

definition dict_get :: "(string \<rightharpoonup> 'v) \<Rightarrow> string \<Rightarrow> 'v \<Rightarrow> 'v" where
  "dict_get d key dflt = (case d key of None \<Rightarrow> dflt | Some v \<Rightarrow> v)"

section \<open>The generator object\<close>

text \<open>
  In GUI mode \<open>self.fields\<close> maps a field name to a Tk widget: a text entry or the
  \<open>StringVar\<close> behind a group of radio buttons. Both hold a string.
\<close>

datatype widget = Entry string | StringVar string

text \<open>
  \<open>root\<close> is true when \<open>self.root\<close> exists and is not \<open>None\<close> (GUI mode). \<open>data\<close> is the
  dictionary of command-line mode. \<open>status_label\<close> is the text of the status bar, absent
  in command-line mode. \<open>settings_file\<close> is the path of the settings file (GUI mode only).
  \<open>fields_dict\<close> is \<open>self.fields\<close>.
\<close>

record generator =
  root :: bool
  fields_dict :: "string \<rightharpoonup> widget"
  data :: "string \<rightharpoonup> string"
  status_label :: "string option"
  settings_file :: string

text \<open>
  A method call takes \<open>self\<close> and returns the raised exception or the returned value,
  together with \<open>self\<close> as the call leaves it.
\<close>

type_synonym 'a call = "generator \<Rightarrow> (error + 'a) \<times> generator"

definition py_return :: "'a \<Rightarrow> 'a call" where
  "py_return x = (\<lambda>self. (Inr x, self))"

definition py_bind :: "'a call \<Rightarrow> ('a \<Rightarrow> 'b call) \<Rightarrow> 'b call" where
  "py_bind m f = (\<lambda>self. case m self of
       (Inl e, self') \<Rightarrow> (Inl e, self')
     | (Inr x, self') \<Rightarrow> f x self')"

section \<open>Reading a field\<close>

definition get_field_value :: "string \<Rightarrow> string call" where
  "get_field_value field_name = (\<lambda>self.
     if root self then
       if fields_dict self field_name = None then (Inr '''', self)
       else (case dict_getitem (fields_dict self) field_name of
               Inl e \<Rightarrow> (Inl e, self)
             | Inr field \<Rightarrow> (case field of
                   StringVar v \<Rightarrow> (Inr v, self)
                 | Entry text \<Rightarrow> (Inr text, self)))
     else (Inr (dict_get (data self) field_name ''''), self))"

section \<open>Rendering the card\<close>

text \<open>\<open>x or d\<close> on strings: the empty string is false.\<close>

definition py_or :: "string \<Rightarrow> string \<Rightarrow> string" where
  "py_or x d = (if x = [] then d else x)"

text \<open>
  The f-string of \<open>generate_latex_code\<close> is the concatenation of its literal pieces and
  of the values of the names in braces, in order; each source line of the template is
  one line of the list below (\<open>{{\<close> and \<open>}}\<close> of the source stand for one brace).
\<close>

definition generate_latex_code :: "string call" where
  "generate_latex_code =
    py_bind (get_field_value ''callsign'') (\<lambda>callsign.
    py_bind (get_field_value ''operator_name'') (\<lambda>operator_name.
    py_bind (get_field_value ''qth_city'') (\<lambda>qth_city.
    py_bind (get_field_value ''qth_state'') (\<lambda>qth_state.
    py_bind (get_field_value ''country'') (\<lambda>country.
    py_bind (get_field_value ''grid'') (\<lambda>grid.
    py_bind (get_field_value ''cq_zone'') (\<lambda>cq_zone.
    py_bind (get_field_value ''itu_zone'') (\<lambda>itu_zone.
    py_bind (get_field_value ''email'') (\<lambda>email.
    py_bind (get_field_value ''qrz_url'') (\<lambda>qrz_url.
    py_bind (get_field_value ''via'') (\<lambda>via.
    py_bind (get_field_value ''to_station'') (\<lambda>to_station.
    py_bind (get_field_value ''their_call'') (\<lambda>their_call.
    py_bind (get_field_value ''date'') (\<lambda>date.
    py_bind (get_field_value ''time'') (\<lambda>time.
    py_bind (get_field_value ''band'') (\<lambda>band.
    py_bind (get_field_value ''mode'') (\<lambda>mode.
    py_bind (get_field_value ''report'') (\<lambda>report.
    py_bind (get_field_value ''qth_type'') (\<lambda>qth_type.
    py_bind (get_field_value ''portable_location'') (\<lambda>portable_location.
    py_bind (get_field_value ''qsl_type'') (\<lambda>qsl_type.
    py_bind (get_field_value ''qsl_request'') (\<lambda>qsl_request.
    py_bind (get_field_value ''transceiver'') (\<lambda>transceiver.
    py_bind (get_field_value ''power'') (\<lambda>power.
    py_bind (get_field_value ''antenna'') (\<lambda>antenna.
    py_bind (get_field_value ''satellite'') (\<lambda>satellite.
    py_bind (get_field_value ''background_image'') (\<lambda>raw. let background_image = py_or raw ''foto_antenas.jpg'' in
    py_bind (get_field_value ''logo1'') (\<lambda>raw. let logo1 = py_or raw ''logo_ure_negro.png'' in
    py_bind (get_field_value ''logo1_scale'') (\<lambda>raw. let logo1_scale = py_or raw ''0.07'' in
    py_bind (get_field_value ''logo2'') (\<lambda>raw. let logo2 = py_or raw ''qrz_com.png'' in
    py_bind (get_field_value ''logo2_scale'') (\<lambda>raw. let logo2_scale = py_or raw ''0.2'' in
    py_bind (get_field_value ''logo3'') (\<lambda>raw. let logo3 = py_or raw ''lotw.png'' in
    py_bind (get_field_value ''logo3_scale'') (\<lambda>raw. let logo3_scale = py_or raw ''0.1'' in
    let home_check = (if qth_type = ''home'' then boxtimes else square);
        portable_check = (if qth_type = ''portable'' then boxtimes else square);
        qso_check = (if qsl_type = ''qso'' then boxtimes else square);
        swl_check = (if qsl_type = ''swl'' then boxtimes else square);
        pse_check = (if qsl_request = ''pse'' then boxtimes else square);
        tnx_check = (if qsl_request = ''tnx'' then boxtimes else square);
        latex_code = concat [
      ''% QSL Card design by Ian Renton M0TRT. Public domain. Based on an example by Fabian Kurz, DJ5CW.\<newline>'',
      ''\<newline>'',
      bs @ ''documentclass[10pt]{article}\<newline>'',
      bs @ ''pagestyle{empty}\<newline>'',
      bs @ ''usepackage{array}\<newline>'',
      bs @ ''usepackage[T1]{fontenc}\<newline>'',
      bs @ ''usepackage{tgschola}\<newline>'',
      bs @ ''usepackage{amsmath}\<newline>'',
      bs @ ''usepackage{amssymb}\<newline>'',
      bs @ ''usepackage{latexsym}\<newline>'',
      bs @ ''usepackage{graphicx}\<newline>'',
      bs @ ''usepackage[export]{adjustbox}\<newline>'',
      bs @ ''usepackage{eso-pic}\<newline>'',
      bs @ ''usepackage{xcolor}\<newline>'',
      bs @ ''usepackage{anyfontsize}\<newline>'',
      bs @ ''usepackage[outline]{contour}\<newline>'',
      bs @ ''usepackage[papersize={14cm,9cm}, margin=0.5cm, marginratio=1:1]{geometry}\<newline>'',
      bs @ ''setlength{'' @ bs @ ''parindent}{0pt}\<newline>'',
      bs @ ''setlength{'' @ bs @ ''parskip}{0pt}\<newline>'',
      bs @ ''AddToShipoutPictureBG{\<newline>'',
      ''    '' @ bs @ ''ifodd'' @ bs @ ''value{page}\<newline>'',
      ''      '' @ bs @ ''AtPageCenter{\<newline>'',
      ''        '' @ bs @ ''includegraphics[width='' @ bs @ ''paperwidth,height='' @ bs @ ''paperheight,valign=M,center=-0.55em]{'', background_image, ''}%\<newline>'',
      ''        }\<newline>'',
      ''    '' @ bs @ ''fi\<newline>'',
      ''}\<newline>'',
      ''\<newline>'',
      bs @ ''begin{document}\<newline>'',
      bs @ ''vspace{0.5cm}\<newline>'',
      bs @ ''begin{center}\<newline>'',
      bs @ ''fontfamily{phv}'' @ bs @ ''selectfont '' @ bs @ ''fontsize{60}{72}'' @ bs @ ''selectfont '' @ bs @ ''textcolor{white}{'' @ bs @ ''contour{black}{'' @ bs @ ''textbf{'', callsign, ''}}}\<newline>'',
      bs @ ''end{center}\<newline>'',
      bs @ ''vspace{4.5cm}\<newline>'',
      bs @ ''hfill\<newline>'',
      bs @ ''begin{minipage}{0.5'' @ bs @ ''textwidth}\<newline>'',
      bs @ ''begin{center}\<newline>'',
      ''{'' @ bs @ ''huge {'' @ bs @ ''fontfamily{phv}'' @ bs @ ''selectfont '' @ bs @ ''textcolor{white}{'' @ bs @ ''contour{black}{'' @ bs @ ''textbf{'', operator_name, ''}}}}}\<newline>'',
      ''\<newline>'',
      bs @ ''vspace{6pt}\<newline>'',
      ''{'' @ bs @ ''Large {'' @ bs @ ''fontfamily{phv}'' @ bs @ ''selectfont '' @ bs @ ''textcolor{white}{'' @ bs @ ''contour{black}{'' @ bs @ ''textbf{'', qth_city, '', '', country, ''}}}}}\<newline>'',
      bs @ ''end{center}\<newline>'',
      bs @ ''end{minipage}\<newline>'',
      bs @ ''newpage\<newline>'',
      bs @ ''begin{minipage}{0.6'' @ bs @ ''textwidth}\<newline>'',
      ''{'' @ bs @ ''Large '' @ bs @ ''textbf{'', callsign, ''}} '' @ bs @ ''quad {'' @ bs @ ''textbf{'', operator_name, ''}}\<newline>'',
      ''\<newline>'',
      ''{'' @ bs @ ''small '', qth_city, '', '', qth_state, '', '', country, ''}\<newline>'',
      ''\<newline>'',
      ''{'' @ bs @ ''small Grid: '', grid, '' '' @ bs @ ''quad CQ: '', cq_zone, '' '' @ bs @ ''quad ITU: '', itu_zone, ''}\<newline>'',
      ''\<newline>'',
      ''{'' @ bs @ ''small '', email, '' '' @ bs @ ''quad '', qrz_url, ''}\<newline>'',
      ''\<newline>'',
      bs @ ''end{minipage}\<newline>'',
      bs @ ''hfill\<newline>'',
      bs @ ''begin{minipage}{0.35'' @ bs @ ''textwidth}\<newline>'',
      bs @ ''begin{tabular}{ | m{11.7em} | }\<newline>'',
      bs @ ''hline\<newline>'',
      ''{'' @ bs @ ''scriptsize VIA '' @ bs @ ''vphantom{$'' @ bs @ ''int'' @ bs @ ''limits_{'' @ bs @ ''dfrac aa}$} '', via, ''}'' @ bs @ bs @ ''\<newline>'',
      bs @ ''hline\<newline>'',
      ''{'' @ bs @ ''scriptsize TO STATION '' @ bs @ ''vphantom{$'' @ bs @ ''int'' @ bs @ ''limits_{'' @ bs @ ''dfrac aa}$} '', to_station, ''}'' @ bs @ bs @ ''\<newline>'',
      bs @ ''hline\<newline>'',
      bs @ ''end{tabular}\<newline>'',
      bs @ ''end{minipage}\<newline>'',
      ''\<newline>'',
      bs @ ''smallskip\<newline>'',
      ''\<newline>'',
      bs @ ''begin{center}\<newline>'',
      bs @ ''begin{tabular}{|w{c}{5em}|w{c}{6.5em}|w{c}{6em}|w{c}{4em}|w{c}{4em}|w{c}{4em}|}\<newline>'',
      bs @ ''hline\<newline>'',
      ''{'' @ bs @ ''footnotesize Your Call}&{'' @ bs @ ''footnotesize Date (D/M/Y)}&{'' @ bs @ ''footnotesize Time (UTC)}&{'' @ bs @ ''footnotesize Band}&{'' @ bs @ ''footnotesize Mode}&{'' @ bs @ ''footnotesize Report}'' @ bs @ bs @ ''\<newline>'',
      bs @ ''hline\<newline>'',
      bs @ ''vphantom{$'' @ bs @ ''dfrac b b$} '', their_call, '' & '', date, '' & '', time, '' & '', band, '' & '', mode, '' & '', report, '' '' @ bs @ bs @ ''\<newline>'',
      bs @ ''hline\<newline>'',
      bs @ ''end{tabular}\<newline>'',
      ''\<newline>'',
      bs @ ''bigskip\<newline>'',
      ''\<newline>'',
      bs @ ''begin{tabular}{|w{c}{4em}|w{c}{20em}|w{c}{4em}|w{c}{3.9em}|}\<newline>'',
      bs @ ''hline\<newline>'',
      ''{'' @ bs @ ''footnotesize My QTH} & '' @ bs @ ''multicolumn{3}{l|}{{'' @ bs @ ''footnotesize '' @ bs @ ''vphantom{$'' @ bs @ ''dfrac b b$} '', home_check, '' Home '' @ bs @ ''enspace '', portable_check, '' Portable: '', portable_location, ''}} '' @ bs @ bs @ ''\<newline>'',
      bs @ ''hline\<newline>'',
      ''{'' @ bs @ ''footnotesize Transceiver} & {'' @ bs @ ''footnotesize '' @ bs @ ''vphantom{$'' @ bs @ ''dfrac b b$} '', transceiver, ''} & {'' @ bs @ ''footnotesize Power} & {'' @ bs @ ''footnotesize '' @ bs @ ''vphantom{$'' @ bs @ ''dfrac b b$} '', power, '' W} '' @ bs @ bs @ ''\<newline>'',
      bs @ ''hline\<newline>'',
      ''{'' @ bs @ ''footnotesize Antenna} & {'' @ bs @ ''footnotesize '' @ bs @ ''vphantom{$'' @ bs @ ''dfrac b b$} '', antenna, ''} & {'' @ bs @ ''footnotesize Via Sat.} & {'' @ bs @ ''footnotesize '' @ bs @ ''vphantom{$'' @ bs @ ''dfrac b b$} '', satellite, ''} '' @ bs @ bs @ ''\<newline>'',
      bs @ ''hline\<newline>'',
      bs @ ''end{tabular}\<newline>'',
      bs @ ''end{center}\<newline>'',
      bs @ ''vspace{3pt}\<newline>'',
      bs @ ''begin{minipage}{0.65'' @ bs @ ''textwidth}\<newline>'',
      ''{'' @ bs @ ''footnotesize Thanking you for: '' @ bs @ ''quad '', qso_check, '' our QSO '' @ bs @ ''quad '', swl_check, '' your SWL report}\<newline>'',
      bs @ ''end{minipage}\<newline>'',
      bs @ ''hfill\<newline>'',
      bs @ ''begin{minipage}{0.3'' @ bs @ ''textwidth}\<newline>'',
      ''{'' @ bs @ ''footnotesize QSL '' @ bs @ ''quad '' @ bs @ ''quad '', pse_check, '' PSE '' @ bs @ ''quad '', tnx_check, '' TNX}\<newline>'',
      bs @ ''end{minipage}\<newline>'',
      ''\<newline>'',
      bs @ ''begin{minipage}{0.65'' @ bs @ ''textwidth}\<newline>'',
      bs @ ''vspace{2em}\<newline>'',
      bs @ ''includegraphics[width='', logo1_scale, bs @ ''textwidth,valign=m]{'', logo1, ''}\<newline>'',
      bs @ ''includegraphics[width='', logo2_scale, bs @ ''textwidth,valign=m]{'', logo2, ''}\<newline>'',
      bs @ ''includegraphics[width='', logo3_scale, bs @ ''textwidth,valign=m]{'', logo3, ''}\<newline>'',
      bs @ ''end{minipage}\<newline>'',
      bs @ ''hfill\<newline>'',
      bs @ ''begin{minipage}{0.3'' @ bs @ ''textwidth}\<newline>'',
      bs @ ''vspace{0.5em}\<newline>'',
      ''{'' @ bs @ ''footnotesize VY 73,}\<newline>'',
      ''\<newline>'',
      bs @ ''vspace{1.5em}\<newline>'',
      bs @ ''makebox{'' @ bs @ ''rule[-0.5em]{11em}{0.4pt}}\<newline>'',
      bs @ ''end{minipage}\<newline>'',
      ''\<newline>'',
      bs @ ''end{document}\<newline>'']
    in py_return latex_code)))))))))))))))))))))))))))))))))"

text \<open>The value of a field as \<open>get_field_value\<close> returns it (empty when the call raises).\<close>

definition value_of :: "generator \<Rightarrow> string \<Rightarrow> string" where
  "value_of self field_name =
     (case fst (get_field_value field_name self) of Inl e \<Rightarrow> '''' | Inr v \<Rightarrow> v)"

text \<open>The text that \<open>generate_latex_code\<close> returns (empty when the call raises).\<close>

definition rendered :: "generator \<Rightarrow> string" where
  "rendered self =
     (case fst (generate_latex_code self) of Inl e \<Rightarrow> '''' | Inr latex_code \<Rightarrow> latex_code)"

section \<open>Construction\<close>

definition init_cli_defaults :: "generator \<Rightarrow> generator" where
  "init_cli_defaults self = self\<lparr>data := map_of [
      (''callsign'', ''EA7HQL''),
      (''operator_name'', ''Andr'' @ [CHR 0xC3, CHR 0xA9] @ ''s Ortiz''),
      (''qth_city'', ''Torremolinos''),
      (''qth_state'', ''M'' @ [CHR 0xC3, CHR 0xA1] @ ''laga''),
      (''country'', ''SPAIN''),
      (''grid'', ''IM76SP''),
      (''cq_zone'', ''14''),
      (''itu_zone'', ''37''),
      (''email'', ''ea7hql@gmail.com''),
      (''qrz_url'', ''https://www.qrz.com''),
      (''via'', ''''),
      (''to_station'', ''''),
      (''their_call'', ''''),
      (''date'', ''''),
      (''time'', ''''),
      (''band'', ''''),
      (''mode'', ''''),
      (''report'', ''''),
      (''qth_type'', ''home''),
      (''portable_location'', ''''),
      (''qsl_type'', ''qso''),
      (''qsl_request'', ''tnx''),
      (''transceiver'', ''''),
      (''power'', ''''),
      (''antenna'', ''''),
      (''satellite'', ''''),
      (''background_image'', ''foto_antenas.jpg''),
      (''logo1'', ''logo_ure_negro.png''),
      (''logo1_scale'', ''0.07''),
      (''logo2'', ''qrz_com.png''),
      (''logo2_scale'', ''0.2''),
      (''logo3'', ''lotw.png''),
      (''logo3_scale'', ''0.1'')]\<rparr>"

definition setup_status_bar :: "generator \<Rightarrow> generator" where
  "setup_status_bar self = self\<lparr>status_label := Some ''Ready''\<rparr>"

text \<open>\<open>self.fields[field_name] = ttk.Entry(...)\<close>: a new entry is empty.\<close>

definition new_entry :: "string \<Rightarrow> generator \<Rightarrow> generator" where
  "new_entry field_name self =
     self\<lparr>fields_dict := (fields_dict self)(field_name \<mapsto> Entry '''')\<rparr>"

definition new_stringvar :: "string \<Rightarrow> string \<Rightarrow> generator \<Rightarrow> generator" where
  "new_stringvar field_name v self =
     self\<lparr>fields_dict := (fields_dict self)(field_name \<mapsto> StringVar v)\<rparr>"

definition setup_station_tab :: "generator \<Rightarrow> generator" where
  "setup_station_tab self =
    (let labels = [''callsign'', ''operator_name'', ''qth_city'', ''qth_state'', ''country'',
                   ''grid'', ''cq_zone'', ''itu_zone'', ''email'', ''qrz_url''];
         self = foldl (\<lambda>self field_name. new_entry field_name self) self labels;
         equipment_labels = [''transceiver'', ''power'', ''antenna'', ''satellite''];
         self = foldl (\<lambda>self field_name. new_entry field_name self) self equipment_labels;
         self = new_entry ''background_image'' self;
         logo_configs = [(''logo1'', ''logo1_scale''), (''logo2'', ''logo2_scale''),
                         (''logo3'', ''logo3_scale'')]
     in foldl (\<lambda>self (file_field, scale_field).
                 new_entry scale_field (new_entry file_field self)) self logo_configs)"

definition setup_contact_tab :: "generator \<Rightarrow> generator" where
  "setup_contact_tab self =
    (let self = new_entry ''via'' self;
         self = new_entry ''to_station'' self;
         labels = [''their_call'', ''date'', ''time'', ''band'', ''mode'', ''report''];
         self = foldl (\<lambda>self field_name. new_entry field_name self) self labels;
         self = new_stringvar ''qth_type'' ''home'' self;
         self = new_entry ''portable_location'' self;
         self = new_stringvar ''qsl_type'' ''qso'' self
     in new_stringvar ''qsl_request'' ''tnx'' self)"

section \<open>The world outside the object\<close>

text \<open>
  A file holds a JSON object with string values, kept as the mapping it encodes, or any
  other bytes. A scratch directory made by \<open>mkdtemp\<close> is known by a number and holds
  files by name. Every message box shown is recorded.
\<close>

datatype file_content = Json "(string \<times> string) list" | Text string

datatype dialog =
    ShowInfo string string
  | ShowError string string
  | AskYesNo string string
  | AskSaveAsFilename

record world =
  files :: "string \<rightharpoonup> file_content"
  temp_dirs :: "(nat \<times> (string \<times> file_content) list) list"
  dialogs :: "dialog list"

text \<open>
  What the outside answers during one action: the home directory, whether writing the
  settings file fails (with the message), the message of \<open>json.load\<close> on bytes that are
  no JSON object, whether \<open>pdflatex\<close> is on the path, the answers of the user, how the
  run of \<open>pdflatex\<close> ends, and whether copying the PDF to the chosen path or reading the
  log fails (with the message). A completed run may leave a PDF and a log in the scratch
  directory and has its standard error captured; the log is given as \<open>read()\<close> returns it.
\<close>

datatype run_result =
    Completed "file_content option" "string option" string
  | TimeoutExpired
  | OtherException string

record environment =
  home :: string
  write_error :: "string option"
  json_error :: "string \<Rightarrow> string"
  which_pdflatex :: bool
  askyesno_answer :: bool
  pdflatex_run :: run_result
  asksaveasfilename_answer :: string
  copy_error :: "string option"
  log_read_error :: "string option"

definition messagebox :: "dialog \<Rightarrow> world \<Rightarrow> world" where
  "messagebox d w = w\<lparr>dialogs := dialogs w @ [d]\<rparr>"

definition update_status :: "string \<Rightarrow> generator \<Rightarrow> generator" where
  "update_status message self =
     (case status_label self of
        None \<Rightarrow> self
      | Some old \<Rightarrow> self\<lparr>status_label := Some message\<rparr>)"

section \<open>Settings\<close>

definition save_fields :: "string list" where
  "save_fields = [''callsign'', ''operator_name'', ''qth_city'', ''qth_state'', ''country'',
                  ''grid'', ''cq_zone'', ''itu_zone'', ''email'', ''qrz_url'',
                  ''transceiver'', ''power'', ''antenna'', ''satellite'',
                  ''background_image'', ''logo1'', ''logo2'', ''logo3'',
                  ''logo1_scale'', ''logo2_scale'', ''logo3_scale'']"

text \<open>
  The loop of \<open>save_settings\<close> over its list of names; the membership test guards the
  index. \<open>settings[field_name] = v\<close> on an insertion-ordered dictionary is \<open>AList.update\<close>.
\<close>

fun collect_settings ::
  "string list \<Rightarrow> generator \<Rightarrow> (string \<times> string) list \<Rightarrow> (string \<times> string) list" where
  "collect_settings [] self settings = settings"
| "collect_settings (field_name # names) self settings =
     collect_settings names self
       (case fields_dict self field_name of
          None \<Rightarrow> settings
        | Some field \<Rightarrow>
            (case field of
               StringVar v \<Rightarrow> AList.update field_name v settings
             | Entry text \<Rightarrow> AList.update field_name text settings))"

definition save_settings :: "environment \<Rightarrow> generator \<times> world \<Rightarrow> generator \<times> world" where
  "save_settings env = (\<lambda>(self, w).
     let settings = collect_settings save_fields self [] in
     case write_error env of
       None \<Rightarrow>
         (update_status ''Settings saved successfully'' self,
          messagebox (ShowInfo ''Success''
                        (''Default settings saved to:\<newline>'' @ settings_file self))
            (w\<lparr>files := (files w)(settings_file self \<mapsto> Json settings)\<rparr>))
     | Some e \<Rightarrow>
         (update_status (''Error saving settings: '' @ e) self,
          messagebox (ShowError ''Error'' (''Failed to save settings: '' @ e)) w))"

text \<open>The dictionary \<open>defaults\<close> of \<open>load_settings\<close>.\<close>

definition defaults :: "(string \<times> string) list" where
  "defaults = [
      (''callsign'', ''EA7HQL''),
      (''operator_name'', ''Andr'' @ [CHR 0xC3, CHR 0xA9] @ ''s Ortiz''),
      (''qth_city'', ''Torremolinos''),
      (''qth_state'', ''M'' @ [CHR 0xC3, CHR 0xA1] @ ''laga''),
      (''country'', ''SPAIN''),
      (''grid'', ''IM76SP''),
      (''cq_zone'', ''14''),
      (''itu_zone'', ''37''),
      (''email'', ''ea7hql@gmail.com''),
      (''qrz_url'', ''https://www.qrz.com''),
      (''transceiver'', ''''),
      (''power'', ''''),
      (''antenna'', ''''),
      (''satellite'', ''''),
      (''background_image'', ''foto_antenas.jpg''),
      (''logo1'', ''logo_ure_negro.png''),
      (''logo1_scale'', ''0.07''),
      (''logo2'', ''qrz_com.png''),
      (''logo2_scale'', ''0.2''),
      (''logo3'', ''lotw.png''),
      (''logo3_scale'', ''0.1'')]"

text \<open>
  The first loop of \<open>load_settings\<close>: \<open>field.insert(0, value)\<close> puts the value in front
  of what the entry holds; a \<open>StringVar\<close> is skipped.
\<close>

fun insert_defaults :: "(string \<times> string) list \<Rightarrow> generator \<Rightarrow> generator" where
  "insert_defaults [] self = self"
| "insert_defaults ((field_name, v) # items) self =
     insert_defaults items
       (case fields_dict self field_name of
          None \<Rightarrow> self
        | Some field \<Rightarrow>
            (case field of
               StringVar old \<Rightarrow> self
             | Entry text \<Rightarrow>
                 self\<lparr>fields_dict := (fields_dict self)(field_name \<mapsto> Entry (v @ text))\<rparr>))"

text \<open>
  The second loop: a \<open>StringVar\<close> is set; an entry is cleared, then the value inserted.
\<close>

fun apply_settings :: "(string \<times> string) list \<Rightarrow> generator \<Rightarrow> generator" where
  "apply_settings [] self = self"
| "apply_settings ((field_name, v) # items) self =
     apply_settings items
       (case fields_dict self field_name of
          None \<Rightarrow> self
        | Some field \<Rightarrow>
            (case field of
               StringVar old \<Rightarrow>
                 self\<lparr>fields_dict := (fields_dict self)(field_name \<mapsto> StringVar v)\<rparr>
             | Entry text \<Rightarrow>
                 self\<lparr>fields_dict := (fields_dict self)(field_name \<mapsto> Entry (v @ ''''))\<rparr>))"

definition load_settings :: "environment \<Rightarrow> generator \<times> world \<Rightarrow> generator \<times> world" where
  "load_settings env = (\<lambda>(self, w).
     case files w (settings_file self) of
       None \<Rightarrow>
         (update_status ''Default values loaded (no saved settings found)''
            (insert_defaults defaults self), w)
     | Some f \<Rightarrow>
         (case f of
            Json settings \<Rightarrow>
              (update_status (''Settings loaded from '' @ settings_file self)
                 (apply_settings settings self), w)
          | Text t \<Rightarrow>
              (let e = json_error env t
               in (update_status (''Error loading settings: '' @ e) self,
                   messagebox (ShowError ''Error'' (''Failed to load settings: '' @ e)) w))))"

text \<open>
  \<open>__init__\<close>: with a root window the form is built and the settings are loaded;
  without one the object only holds the command-line defaults.
\<close>

definition form :: "environment \<Rightarrow> generator" where
  "form env =
     (let self = \<lparr>root = True, fields_dict = Map.empty, data = Map.empty,
                  status_label = None,
                  settings_file = home env @ ''/.qsl_generator_settings.json''\<rparr>;
          self = setup_status_bar self;
          self = setup_station_tab self
      in setup_contact_tab self)"

definition init :: "bool \<Rightarrow> environment \<Rightarrow> world \<Rightarrow> generator \<times> world" where
  "init root_given env w =
     (if root_given then load_settings env (form env, w)
      else (init_cli_defaults
              \<lparr>root = False, fields_dict = Map.empty, data = Map.empty,
               status_label = None, settings_file = ''''\<rparr>, w))"

section \<open>Producing the PDF\<close>

definition mkdtemp :: "world \<Rightarrow> nat \<times> world" where
  "mkdtemp w =
     (let temp_dir = Suc (foldr max (map fst (temp_dirs w)) 0)
      in (temp_dir, w\<lparr>temp_dirs := temp_dirs w @ [(temp_dir, [])]\<rparr>))"

definition temp_write :: "nat \<Rightarrow> string \<Rightarrow> file_content \<Rightarrow> world \<Rightarrow> world" where
  "temp_write temp_dir name content w =
     w\<lparr>temp_dirs := AList.map_entry temp_dir (AList.update name content) (temp_dirs w)\<rparr>"

definition temp_read :: "nat \<Rightarrow> string \<Rightarrow> world \<Rightarrow> file_content option" where
  "temp_read temp_dir name w =
     (case map_of (temp_dirs w) temp_dir of
        None \<Rightarrow> None
      | Some dir \<Rightarrow> map_of dir name)"

definition rmtree :: "nat \<Rightarrow> world \<Rightarrow> world" where
  "rmtree temp_dir w = w\<lparr>temp_dirs := AList.delete temp_dir (temp_dirs w)\<rparr>"

definition basename :: "string \<Rightarrow> string" where
  "basename path = rev (takeWhile (\<lambda>c. c \<noteq> CHR ''/'') (rev path))"

text \<open>\<open>str(e)\<close> of a \<open>KeyError\<close> is the key in quotes.\<close>

definition str_error :: "error \<Rightarrow> string" where
  "str_error e = (case e of KeyError key \<Rightarrow> [CHR 0x27] @ key @ [CHR 0x27])"

text \<open>\<open>s.split('\n')\<close>, \<open>'\n'.join(xs)\<close> and \<open>sub in s\<close>.\<close>

fun split_newline :: "string \<Rightarrow> string list" where
  "split_newline [] = [[]]"
| "split_newline (c # s) =
     (if c = CHR ''\<newline>'' then [] # split_newline s
      else (case split_newline s of
              [] \<Rightarrow> [[c]]
            | l # ls \<Rightarrow> (c # l) # ls))"

fun join_newline :: "string list \<Rightarrow> string" where
  "join_newline [] = []"
| "join_newline [x] = x"
| "join_newline (x # y # xs) = x @ ''\<newline>'' @ join_newline (y # xs)"

fun py_in :: "string \<Rightarrow> string \<Rightarrow> bool" where
  "py_in sub [] = (sub = [])"
| "py_in sub (c # s) = (prefix sub (c # s) \<or> py_in sub s)"

text \<open>The text of a file read with \<open>open(...).read()\<close>; only text files are read here.\<close>

definition text_of :: "file_content \<Rightarrow> string" where
  "text_of f = (case f of Text t \<Rightarrow> t | Json settings \<Rightarrow> '''')"

definition read_image_files :: "string list call" where
  "read_image_files =
    py_bind (get_field_value ''background_image'') (\<lambda>background_image.
    py_bind (get_field_value ''logo1'') (\<lambda>logo1.
    py_bind (get_field_value ''logo2'') (\<lambda>logo2.
    py_bind (get_field_value ''logo3'') (\<lambda>logo3.
    py_return [py_or background_image ''foto_antenas.jpg'',
               py_or logo1 ''logo_ure_negro.png'',
               py_or logo2 ''qrz_com.png'',
               py_or logo3 ''lotw.png'']))))"

text \<open>
  The loop that stages the images that exist and collects the names of the others.
  The paths of the world are regular files: an image field that names a directory, for
  which \<open>os.path.exists\<close> holds and \<open>shutil.copy\<close> raises, is outside this model.
\<close>

fun stage_images :: "nat \<Rightarrow> string list \<Rightarrow> world \<Rightarrow> string list \<Rightarrow> world \<times> string list" where
  "stage_images temp_dir [] w missing_images = (w, missing_images)"
| "stage_images temp_dir (img # imgs) w missing_images =
     (case files w img of
        Some content \<Rightarrow>
          stage_images temp_dir imgs (temp_write temp_dir (basename img) content w) missing_images
      | None \<Rightarrow> stage_images temp_dir imgs w (missing_images @ [img]))"

definition missing_images_message :: "string list \<Rightarrow> string" where
  "missing_images_message missing_images =
     ''The following image files were not found:\<newline>'' @
     join_newline (map (\<lambda>img. ''  '' @ [CHR 0xE2, CHR 0x80, CHR 0xA2] @ '' '' @ img) missing_images) @
     ''\<newline>\<newline>Do you want to continue anyway?\<newline>'' @
     ''(PDF generation may fail)''"

text \<open>What the body of the \<open>try\<close> statement of \<open>generate_pdf\<close> raises, if anything.\<close>

datatype raised = RaisedTimeoutExpired | RaisedException string

text \<open>
  The part of the \<open>try\<close> body after a completed run of \<open>pdflatex\<close>, up to the clean-up.
  Copying the PDF to the chosen path and reading the log can raise.
\<close>

definition after_run ::
  "environment \<Rightarrow> nat \<Rightarrow> string \<Rightarrow> generator \<times> world \<Rightarrow> raised option \<times> generator \<times> world" where
  "after_run env temp_dir stderr = (\<lambda>(self, w).
     case temp_read temp_dir ''qsl_card.pdf'' w of
       Some pdf \<Rightarrow>
         (let w = messagebox AskSaveAsFilename w;
              save_path = asksaveasfilename_answer env
          in if save_path \<noteq> [] then
               (case copy_error env of
                  Some e \<Rightarrow> (Some (RaisedException e), self, w)
                | None \<Rightarrow>
                    (None, update_status (''PDF saved successfully to '' @ save_path) self,
                     messagebox (ShowInfo ''Success''
                        (''PDF generated successfully!\<newline>\<newline>Saved to:\<newline>'' @ save_path @
                         ''\<newline>\<newline>You can now print your QSL card.''))
                       (w\<lparr>files := (files w)(save_path \<mapsto> pdf)\<rparr>)))
             else (None, update_status ''PDF generation cancelled by user'' self, w))
     | None \<Rightarrow>
         (let error_msg = ''PDF generation failed.\<newline>\<newline>''
          in case temp_read temp_dir ''qsl_card.log'' w of
               Some log_file \<Rightarrow>
                 (case log_read_error env of
                    Some e \<Rightarrow> (Some (RaisedException e), self, w)
                  | None \<Rightarrow>
                      (let lines = split_newline (text_of log_file);
                           error_lines = filter (\<lambda>l. py_in ''!'' l \<or> py_in ''Error'' l \<or>
                                                     py_in ''error'' l) lines;
                           error_msg =
                             (if error_lines \<noteq> [] then
                                error_msg @ ''Errors found:\<newline>'' @
                                join_newline (take 10 error_lines)
                              else error_msg)
                       in (None, update_status ''PDF generation failed'' self,
                           messagebox (ShowError ''Error'' error_msg) w)))
             | None \<Rightarrow>
                 (None, update_status ''PDF generation failed'' self,
                  messagebox (ShowError ''Error'' (error_msg @ stderr)) w)))"

definition generate_pdf_try ::
  "environment \<Rightarrow> generator \<times> world \<Rightarrow> raised option \<times> generator \<times> world" where
  "generate_pdf_try env = (\<lambda>(self, w).
     case generate_latex_code self of
       (Inl e, self) \<Rightarrow> (Some (RaisedException (str_error e)), self, w)
     | (Inr latex_code, self) \<Rightarrow>
         (let (temp_dir, w) = mkdtemp w;
              w = temp_write temp_dir ''qsl_card.tex'' (Text latex_code) w
          in case read_image_files self of
               (Inl e, self) \<Rightarrow> (Some (RaisedException (str_error e)), self, w)
             | (Inr image_files, self) \<Rightarrow>
                 (let (w, missing_images) = stage_images temp_dir image_files w [];
                      w = (if missing_images \<noteq> [] then
                             messagebox (AskYesNo ''Missing Images''
                                           (missing_images_message missing_images)) w
                           else w)
                  in if missing_images \<noteq> [] \<and> \<not> askyesno_answer env then
                       (None, update_status ''PDF generation cancelled'' self, rmtree temp_dir w)
                     else
                       (let self = update_status ''Running pdflatex (this may take a moment)...'' self
                        in case pdflatex_run env of
                             TimeoutExpired \<Rightarrow> (Some RaisedTimeoutExpired, self, w)
                           | OtherException e \<Rightarrow> (Some (RaisedException e), self, w)
                           | Completed pdf log stderr \<Rightarrow>
                               (let w = (case pdf of
                                           None \<Rightarrow> w
                                         | Some content \<Rightarrow> temp_write temp_dir ''qsl_card.pdf'' content w);
                                    w = (case log of
                                           None \<Rightarrow> w
                                         | Some t \<Rightarrow> temp_write temp_dir ''qsl_card.log'' (Text t) w)
                                in case after_run env temp_dir stderr (self, w) of
                                     (Some r, self, w) \<Rightarrow> (Some r, self, w)
                                   | (None, self, w) \<Rightarrow> (None, self, rmtree temp_dir w))))))"

definition generate_pdf :: "environment \<Rightarrow> generator \<times> world \<Rightarrow> generator \<times> world" where
  "generate_pdf env = (\<lambda>(self, w).
     if \<not> which_pdflatex env then
       (self,
        messagebox (ShowError ''Error''
          (''pdflatex is not installed or not in PATH.\<newline>\<newline>'' @
           ''Please install LaTeX:\<newline>'' @
           ''  Ubuntu/Debian: sudo apt-get install texlive-latex-base texlive-fonts-recommended\<newline>'' @
           ''  Fedora: sudo dnf install texlive-scheme-basic\<newline>'' @
           ''  macOS: brew install mactex'')) w)
     else
       (case generate_pdf_try env (update_status ''Generating PDF...'' self, w) of
          (None, self, w) \<Rightarrow> (self, w)
        | (Some RaisedTimeoutExpired, self, w) \<Rightarrow>
            (update_status ''PDF generation timed out'' self,
             messagebox (ShowError ''Error''
               ''PDF generation timed out. Check your LaTeX installation.'') w)
        | (Some (RaisedException e), self, w) \<Rightarrow>
            (update_status (''Error: '' @ e) self,
             messagebox (ShowError ''Error'' (''Failed to generate PDF: '' @ e)) w)))"

text \<open>
  The three lines of the template that hold the checkbox markers, as functions of what
  stands in their holes.
\<close>

abbreviation qth_row :: "string \<Rightarrow> string \<Rightarrow> string \<Rightarrow> string" where
  "qth_row home_check portable_check portable_location \<equiv>
     ''{'' @ bs @ ''footnotesize My QTH} & '' @ bs @ ''multicolumn{3}{l|}{{'' @ bs @
     ''footnotesize '' @ bs @ ''vphantom{$'' @ bs @ ''dfrac b b$} '' @ home_check @
     '' Home '' @ bs @ ''enspace '' @ portable_check @ '' Portable: '' @
     portable_location @ ''}} '' @ bs @ bs @ ''\<newline>''"

abbreviation thanks_row :: "string \<Rightarrow> string \<Rightarrow> string" where
  "thanks_row qso_check swl_check \<equiv>
     ''{'' @ bs @ ''footnotesize Thanking you for: '' @ bs @ ''quad '' @ qso_check @
     '' our QSO '' @ bs @ ''quad '' @ swl_check @ '' your SWL report}\<newline>''"

abbreviation qsl_row :: "string \<Rightarrow> string \<Rightarrow> string" where
  "qsl_row pse_check tnx_check \<equiv>
     ''{'' @ bs @ ''footnotesize QSL '' @ bs @ ''quad '' @ bs @ ''quad '' @ pse_check @
     '' PSE '' @ bs @ ''quad '' @ tnx_check @ '' TNX}\<newline>''"

section \<open>Objects to run the program on\<close>

text \<open>
  A command-line object as \<open>__init__\<close> makes it, holding the dictionary \<open>d\<close> as
  \<open>self.data\<close>.
\<close>

definition cli_object :: "(string \<rightharpoonup> string) \<Rightarrow> generator" where
  "cli_object d = \<lparr>root = False, fields_dict = Map.empty, data = d,
                   status_label = None, settings_file = ''''\<rparr>"

text \<open>A GUI object with the widgets \<open>ws\<close> and the status text \<open>Ready\<close>.\<close>

definition gui_object :: "(string \<rightharpoonup> widget) \<Rightarrow> generator" where
  "gui_object ws = \<lparr>root = True, fields_dict = ws, data = Map.empty,
                    status_label = Some ''Ready'',
                    settings_file = ''/home/op/.qsl_generator_settings.json''\<rparr>"

text \<open>
  An outside where the settings file can be written, \<open>pdflatex\<close> is installed, the user
  answers yes, and the run of \<open>pdflatex\<close> does not end in time; and a world with no
  files yet.
\<close>

definition timeout_env :: environment where
  "timeout_env = \<lparr>home = ''/home/op'', write_error = None,
                   json_error = (\<lambda>t. ''Expecting value''), which_pdflatex = True,
                   askyesno_answer = True, pdflatex_run = TimeoutExpired,
                   asksaveasfilename_answer = '''',
                   copy_error = None, log_read_error = None\<rparr>"

definition empty_world :: world where
  "empty_world = \<lparr>files = Map.empty, temp_dirs = [], dialogs = []\<rparr>"

section \<open>Reading never raises and never writes\<close>

lemma get_field_value_run:
  "get_field_value field_name self = (Inr (value_of self field_name), self)"
  by (cases "fields_dict self field_name")
     (auto simp: get_field_value_def value_of_def dict_getitem_def split: widget.splits)

lemma bind_get_field_value:
  "py_bind (get_field_value field_name) f self = f (value_of self field_name) self"
  by (simp add: py_bind_def get_field_value_run)

lemma value_of_gui:
  "root self \<Longrightarrow> value_of self field_name =
     (case fields_dict self field_name of
        None \<Rightarrow> ''''
      | Some (Entry text) \<Rightarrow> text
      | Some (StringVar v) \<Rightarrow> v)"
  by (auto simp: value_of_def get_field_value_def dict_getitem_def
           split: option.splits widget.splits)

lemma value_of_cli:
  "\<not> root self \<Longrightarrow> value_of self field_name =
     (case data self field_name of None \<Rightarrow> '''' | Some v \<Rightarrow> v)"
  by (simp add: value_of_def get_field_value_def dict_get_def)

lemma generate_latex_code_run:
  "generate_latex_code self = (Inr (rendered self), self)"
proof -
  have "\<exists>out. generate_latex_code self = (Inr out, self)"
    unfolding generate_latex_code_def
    by (simp only: bind_get_field_value Let_def py_return_def) blast
  then show ?thesis
    by (auto simp: rendered_def)
qed

text \<open>The rendered text depends on the object only through the values of its fields.\<close>

lemma rendered_cong:
  assumes "\<forall>field_name. value_of a field_name = value_of b field_name"
  shows "rendered a = rendered b"
  unfolding rendered_def generate_latex_code_def
  by (simp only: bind_get_field_value Let_def py_return_def assms fst_conv)

text \<open>
  Claim C9. Rendering is read-only: \<open>generate_latex_code\<close> and \<open>get_field_value\<close> hand
  the object back as they received it, so every field reads the same before and after
  a render call.
\<close>

theorem render_read_only:
  "snd (generate_latex_code self) = self \<and>
   (\<forall>field_name. snd (get_field_value field_name self) = self) \<and>
   (\<forall>field_name. get_field_value field_name (snd (generate_latex_code self)) =
                 get_field_value field_name self)"
  by (simp add: generate_latex_code_run get_field_value_run)

text \<open>
  Claim C3. Rendering is deterministic: a second call on the object the first call
  left returns the same string, and two objects whose fields read the same (whatever
  their mode, widgets, status text or settings path) render to the same string.
\<close>

theorem render_deterministic:
  "fst (generate_latex_code (snd (generate_latex_code self))) =
     fst (generate_latex_code self) \<and>
   ((\<forall>field_name. value_of a field_name = value_of b field_name) \<longrightarrow>
      fst (generate_latex_code a) = fst (generate_latex_code b))"
proof (intro conjI impI)
  show "fst (generate_latex_code (snd (generate_latex_code self))) =
          fst (generate_latex_code self)"
    by (simp add: generate_latex_code_run)
next
  assume "\<forall>field_name. value_of a field_name = value_of b field_name"
  then have "rendered a = rendered b"
    by (rule rendered_cong)
  then show "fst (generate_latex_code a) = fst (generate_latex_code b)"
    by (simp add: generate_latex_code_run)
qed

theorem render_deterministic_witness:
  "(\<forall>field_name.
      value_of (cli_object [''callsign'' \<mapsto> ''EA7HQL'', ''qth_type'' \<mapsto> ''home'']) field_name =
      value_of (gui_object [''callsign'' \<mapsto> Entry ''EA7HQL'',
                            ''qth_type'' \<mapsto> StringVar ''home'']) field_name) \<and>
   fst (generate_latex_code (cli_object [''callsign'' \<mapsto> ''EA7HQL'', ''qth_type'' \<mapsto> ''home''])) =
   fst (generate_latex_code (gui_object [''callsign'' \<mapsto> Entry ''EA7HQL'',
                                         ''qth_type'' \<mapsto> StringVar ''home'']))"
proof -
  have same: "\<forall>field_name.
      value_of (cli_object [''callsign'' \<mapsto> ''EA7HQL'', ''qth_type'' \<mapsto> ''home'']) field_name =
      value_of (gui_object [''callsign'' \<mapsto> Entry ''EA7HQL'',
                            ''qth_type'' \<mapsto> StringVar ''home'']) field_name"
    by (simp add: value_of_cli value_of_gui cli_object_def gui_object_def)
  show ?thesis
    using same
      render_deterministic [of _
        "cli_object [''callsign'' \<mapsto> ''EA7HQL'', ''qth_type'' \<mapsto> ''home'']"
        "gui_object [''callsign'' \<mapsto> Entry ''EA7HQL'', ''qth_type'' \<mapsto> StringVar ''home'']"]
    by blast
qed

section \<open>What stands where in the rendered text\<close>

text \<open>A run of consecutive parts of the f-string is a contiguous piece of its value.\<close>

lemma sublist_concat_window:
  assumes "concat (take m (drop k xs)) = pre @ w @ post"
  shows "sublist w (concat xs)"
proof -
  have "concat xs =
          concat (take k xs) @ concat (take m (drop k xs)) @ concat (drop m (drop k xs))"
    by (metis append_take_drop_id concat_append)
  then have "concat xs =
          (concat (take k xs) @ pre) @ w @ (post @ concat (drop m (drop k xs)))"
    using assms by simp
  then show ?thesis
    unfolding sublist_def by blast
qed

lemma rendered_qth_row:
  "sublist (qth_row (if value_of self ''qth_type'' = ''home'' then boxtimes else square)
                    (if value_of self ''qth_type'' = ''portable'' then boxtimes else square)
                    (value_of self ''portable_location'')) (rendered self)"
  unfolding rendered_def generate_latex_code_def
  apply (simp only: bind_get_field_value Let_def py_return_def fst_conv sum.case)
  apply (rule sublist_concat_window [where k = 125 and m = 7 and pre = "[]" and post = "[]"])
  apply simp
  done

lemma rendered_thanks_row:
  "sublist (thanks_row (if value_of self ''qsl_type'' = ''qso'' then boxtimes else square)
                       (if value_of self ''qsl_type'' = ''swl'' then boxtimes else square))
     (rendered self)"
  unfolding rendered_def generate_latex_code_def
  apply (simp only: bind_get_field_value Let_def py_return_def fst_conv sum.case)
  apply (rule sublist_concat_window [where k = 149 and m = 5 and pre = "[]" and post = "[]"])
  apply simp
  done

lemma rendered_qsl_row:
  "sublist (qsl_row (if value_of self ''qsl_request'' = ''pse'' then boxtimes else square)
                    (if value_of self ''qsl_request'' = ''tnx'' then boxtimes else square))
     (rendered self)"
  unfolding rendered_def generate_latex_code_def
  apply (simp only: bind_get_field_value Let_def py_return_def fst_conv sum.case)
  apply (rule sublist_concat_window [where k = 157 and m = 5 and pre = "[]" and post = "[]"])
  apply simp
  done

lemma rendered_background_image:
  "sublist (bs @ ''includegraphics[width='' @ bs @ ''paperwidth,height='' @ bs @
           ''paperheight,valign=M,center=-0.55em]{'' @
           py_or (value_of self ''background_image'') ''foto_antenas.jpg'' @
           ''}%\<newline>'')
     (rendered self)"
  unfolding rendered_def generate_latex_code_def
  apply (simp only: bind_get_field_value Let_def py_return_def fst_conv sum.case)
  apply (rule sublist_concat_window [where k = 22 and m = 3 and pre = "''        ''" and post = "[]"])
  apply simp
  done

lemma rendered_logo1_scale:
  "sublist (bs @ ''includegraphics[width='' @ py_or (value_of self ''logo1_scale'') ''0.07'' @
           bs @ ''textwidth,valign=m]{'')
     (rendered self)"
  unfolding rendered_def generate_latex_code_def
  apply (simp only: bind_get_field_value Let_def py_return_def fst_conv sum.case)
  apply (rule sublist_concat_window [where k = 166 and m = 3 and pre = "[]" and post = "[]"])
  apply simp
  done

lemma rendered_logo1:
  "sublist (bs @ ''textwidth,valign=m]{'' @
           py_or (value_of self ''logo1'') ''logo_ure_negro.png'' @ ''}\<newline>'')
     (rendered self)"
  unfolding rendered_def generate_latex_code_def
  apply (simp only: bind_get_field_value Let_def py_return_def fst_conv sum.case)
  apply (rule sublist_concat_window [where k = 168 and m = 3 and pre = "[]" and post = "[]"])
  apply simp
  done

lemma rendered_logo2_scale:
  "sublist (bs @ ''includegraphics[width='' @ py_or (value_of self ''logo2_scale'') ''0.2'' @
           bs @ ''textwidth,valign=m]{'')
     (rendered self)"
  unfolding rendered_def generate_latex_code_def
  apply (simp only: bind_get_field_value Let_def py_return_def fst_conv sum.case)
  apply (rule sublist_concat_window [where k = 171 and m = 3 and pre = "[]" and post = "[]"])
  apply simp
  done

lemma rendered_logo2:
  "sublist (bs @ ''textwidth,valign=m]{'' @ py_or (value_of self ''logo2'') ''qrz_com.png'' @
           ''}\<newline>'')
     (rendered self)"
  unfolding rendered_def generate_latex_code_def
  apply (simp only: bind_get_field_value Let_def py_return_def fst_conv sum.case)
  apply (rule sublist_concat_window [where k = 173 and m = 3 and pre = "[]" and post = "[]"])
  apply simp
  done

lemma rendered_logo3_scale:
  "sublist (bs @ ''includegraphics[width='' @ py_or (value_of self ''logo3_scale'') ''0.1'' @
           bs @ ''textwidth,valign=m]{'')
     (rendered self)"
  unfolding rendered_def generate_latex_code_def
  apply (simp only: bind_get_field_value Let_def py_return_def fst_conv sum.case)
  apply (rule sublist_concat_window [where k = 176 and m = 3 and pre = "[]" and post = "[]"])
  apply simp
  done

lemma rendered_logo3:
  "sublist (bs @ ''textwidth,valign=m]{'' @ py_or (value_of self ''logo3'') ''lotw.png'' @
           ''}\<newline>'')
     (rendered self)"
  unfolding rendered_def generate_latex_code_def
  apply (simp only: bind_get_field_value Let_def py_return_def fst_conv sum.case)
  apply (rule sublist_concat_window [where k = 178 and m = 3 and pre = "[]" and post = "[]"])
  apply simp
  done

text \<open>
  Claim C4. Rendering is total: for every generator object, whatever fields it has,
  \<open>generate_latex_code\<close> returns a string and raises nothing; a field that is absent
  (no widget in GUI mode, no key in command-line mode) is read as the empty string, and
  an absent field that has a default stands in the rendered text as that default.
\<close>

theorem render_total:
  "(let absent = (\<lambda>field_name. if root self then fields_dict self field_name = None
                                 else data self field_name = None)
    in (\<exists>latex_code. generate_latex_code self = (Inr latex_code, self)) \<and>
       (\<forall>field_name. absent field_name \<longrightarrow>
          get_field_value field_name self = (Inr '''', self)) \<and>
       (absent ''background_image'' \<longrightarrow>
          sublist (bs @ ''includegraphics[width='' @ bs @ ''paperwidth,height='' @ bs @
                   ''paperheight,valign=M,center=-0.55em]{'' @ ''foto_antenas.jpg'' @
                   ''}%\<newline>'')
            (rendered self)) \<and>
       (absent ''logo1_scale'' \<longrightarrow>
          sublist (bs @ ''includegraphics[width='' @ ''0.07'' @ bs @
                   ''textwidth,valign=m]{'')
            (rendered self)) \<and>
       (absent ''logo1'' \<longrightarrow>
          sublist (bs @ ''textwidth,valign=m]{'' @ ''logo_ure_negro.png'' @ ''}\<newline>'')
            (rendered self)) \<and>
       (absent ''logo2_scale'' \<longrightarrow>
          sublist (bs @ ''includegraphics[width='' @ ''0.2'' @ bs @ ''textwidth,valign=m]{'')
            (rendered self)) \<and>
       (absent ''logo2'' \<longrightarrow>
          sublist (bs @ ''textwidth,valign=m]{'' @ ''qrz_com.png'' @ ''}\<newline>'')
            (rendered self)) \<and>
       (absent ''logo3_scale'' \<longrightarrow>
          sublist (bs @ ''includegraphics[width='' @ ''0.1'' @ bs @ ''textwidth,valign=m]{'')
            (rendered self)) \<and>
       (absent ''logo3'' \<longrightarrow>
          sublist (bs @ ''textwidth,valign=m]{'' @ ''lotw.png'' @ ''}\<newline>'')
            (rendered self)))"
proof -
  have returns: "\<exists>latex_code. generate_latex_code self = (Inr latex_code, self)"
    using generate_latex_code_run by blast
  have reads: "get_field_value field_name self = (Inr '''', self)"
    if "if root self then fields_dict self field_name = None
        else data self field_name = None" for field_name
    using that by (auto simp: get_field_value_def dict_get_def split: if_splits)
  have absent_value: "value_of self field_name = []"
    if "if root self then fields_dict self field_name = None
        else data self field_name = None" for field_name
    using reads [OF that] by (simp add: value_of_def)
  have background_image: "sublist (bs @ ''includegraphics[width='' @ bs @ ''paperwidth,height='' @ bs @
            ''paperheight,valign=M,center=-0.55em]{'' @ ''foto_antenas.jpg'' @
            ''}%\<newline>'')
      (rendered self)" if "if root self then fields_dict self ''background_image'' = None
          else data self ''background_image'' = None"
    using that rendered_background_image [of self] by (simp add: absent_value py_or_def)
  have logo1_scale: "sublist (bs @ ''includegraphics[width='' @ ''0.07'' @ bs @ ''textwidth,valign=m]{'')
      (rendered self)" if "if root self then fields_dict self ''logo1_scale'' = None
          else data self ''logo1_scale'' = None"
    using that rendered_logo1_scale [of self] by (simp add: absent_value py_or_def)
  have logo1: "sublist (bs @ ''textwidth,valign=m]{'' @ ''logo_ure_negro.png'' @ ''}\<newline>'')
      (rendered self)" if "if root self then fields_dict self ''logo1'' = None
          else data self ''logo1'' = None"
    using that rendered_logo1 [of self] by (simp add: absent_value py_or_def)
  have logo2_scale: "sublist (bs @ ''includegraphics[width='' @ ''0.2'' @ bs @ ''textwidth,valign=m]{'')
      (rendered self)" if "if root self then fields_dict self ''logo2_scale'' = None
          else data self ''logo2_scale'' = None"
    using that rendered_logo2_scale [of self] by (simp add: absent_value py_or_def)
  have logo2: "sublist (bs @ ''textwidth,valign=m]{'' @ ''qrz_com.png'' @ ''}\<newline>'')
      (rendered self)" if "if root self then fields_dict self ''logo2'' = None
          else data self ''logo2'' = None"
    using that rendered_logo2 [of self] by (simp add: absent_value py_or_def)
  have logo3_scale: "sublist (bs @ ''includegraphics[width='' @ ''0.1'' @ bs @ ''textwidth,valign=m]{'')
      (rendered self)" if "if root self then fields_dict self ''logo3_scale'' = None
          else data self ''logo3_scale'' = None"
    using that rendered_logo3_scale [of self] by (simp add: absent_value py_or_def)
  have logo3: "sublist (bs @ ''textwidth,valign=m]{'' @ ''lotw.png'' @ ''}\<newline>'')
      (rendered self)" if "if root self then fields_dict self ''logo3'' = None
          else data self ''logo3'' = None"
    using that rendered_logo3 [of self] by (simp add: absent_value py_or_def)
  show ?thesis
    unfolding Let_def
    using returns reads background_image logo1_scale logo1 logo2_scale logo2
      logo3_scale logo3
    by (intro conjI allI impI) assumption+
qed

theorem render_total_witness:
  "(\<exists>latex_code.
      generate_latex_code (cli_object [''callsign'' \<mapsto> ''EA7HQL'']) =
        (Inr latex_code, cli_object [''callsign'' \<mapsto> ''EA7HQL''])) \<and>
   data (cli_object [''callsign'' \<mapsto> ''EA7HQL'']) ''power'' = None \<and>
   get_field_value ''power'' (cli_object [''callsign'' \<mapsto> ''EA7HQL'']) =
     (Inr '''', cli_object [''callsign'' \<mapsto> ''EA7HQL'']) \<and>
   data (cli_object [''callsign'' \<mapsto> ''EA7HQL'']) ''background_image'' = None \<and>
   sublist (bs @ ''includegraphics[width='' @ bs @ ''paperwidth,height='' @ bs @
            ''paperheight,valign=M,center=-0.55em]{'' @ ''foto_antenas.jpg'' @
            ''}%\<newline>'')
     (rendered (cli_object [''callsign'' \<mapsto> ''EA7HQL''])) \<and>
   data (cli_object [''callsign'' \<mapsto> ''EA7HQL'']) ''logo1_scale'' = None \<and>
   sublist (bs @ ''includegraphics[width='' @ ''0.07'' @ bs @ ''textwidth,valign=m]{'')
     (rendered (cli_object [''callsign'' \<mapsto> ''EA7HQL''])) \<and>
   data (cli_object [''callsign'' \<mapsto> ''EA7HQL'']) ''logo1'' = None \<and>
   sublist (bs @ ''textwidth,valign=m]{'' @ ''logo_ure_negro.png'' @ ''}\<newline>'')
     (rendered (cli_object [''callsign'' \<mapsto> ''EA7HQL''])) \<and>
   data (cli_object [''callsign'' \<mapsto> ''EA7HQL'']) ''logo2_scale'' = None \<and>
   sublist (bs @ ''includegraphics[width='' @ ''0.2'' @ bs @ ''textwidth,valign=m]{'')
     (rendered (cli_object [''callsign'' \<mapsto> ''EA7HQL''])) \<and>
   data (cli_object [''callsign'' \<mapsto> ''EA7HQL'']) ''logo2'' = None \<and>
   sublist (bs @ ''textwidth,valign=m]{'' @ ''qrz_com.png'' @ ''}\<newline>'')
     (rendered (cli_object [''callsign'' \<mapsto> ''EA7HQL''])) \<and>
   data (cli_object [''callsign'' \<mapsto> ''EA7HQL'']) ''logo3_scale'' = None \<and>
   sublist (bs @ ''includegraphics[width='' @ ''0.1'' @ bs @ ''textwidth,valign=m]{'')
     (rendered (cli_object [''callsign'' \<mapsto> ''EA7HQL''])) \<and>
   data (cli_object [''callsign'' \<mapsto> ''EA7HQL'']) ''logo3'' = None \<and>
   sublist (bs @ ''textwidth,valign=m]{'' @ ''lotw.png'' @ ''}\<newline>'')
     (rendered (cli_object [''callsign'' \<mapsto> ''EA7HQL'']))"
  using render_total [of "cli_object [''callsign'' \<mapsto> ''EA7HQL'']"]
  by (simp add: Let_def cli_object_def)

text \<open>
  Claim C1, as amended. In each of the three checkbox lines each marker is the checked
  glyph exactly when the choice field equals that marker's own literal (\<open>home\<close> and
  \<open>portable\<close>, \<open>qso\<close> and \<open>swl\<close>, \<open>pse\<close> and \<open>tnx\<close>) and the unchecked glyph otherwise.
  So a field holding one of its two literals gives one checked and one unchecked marker,
  and any other value leaves both markers of the pair unchecked: nothing routes it to
  the second marker.
\<close>

theorem checkbox_by_own_literal:
  "sublist (qth_row (if value_of self ''qth_type'' = ''home'' then boxtimes else square)
                    (if value_of self ''qth_type'' = ''portable'' then boxtimes else square)
                    (value_of self ''portable_location'')) (rendered self) \<and>
   sublist (thanks_row (if value_of self ''qsl_type'' = ''qso'' then boxtimes else square)
                       (if value_of self ''qsl_type'' = ''swl'' then boxtimes else square))
     (rendered self) \<and>
   sublist (qsl_row (if value_of self ''qsl_request'' = ''pse'' then boxtimes else square)
                    (if value_of self ''qsl_request'' = ''tnx'' then boxtimes else square))
     (rendered self) \<and>
   (value_of self ''qth_type'' \<noteq> ''home'' \<and> value_of self ''qth_type'' \<noteq> ''portable'' \<longrightarrow>
      sublist (qth_row square square (value_of self ''portable_location'')) (rendered self)) \<and>
   (value_of self ''qsl_type'' \<noteq> ''qso'' \<and> value_of self ''qsl_type'' \<noteq> ''swl'' \<longrightarrow>
      sublist (thanks_row square square) (rendered self)) \<and>
   (value_of self ''qsl_request'' \<noteq> ''pse'' \<and> value_of self ''qsl_request'' \<noteq> ''tnx'' \<longrightarrow>
      sublist (qsl_row square square) (rendered self))"
proof (intro conjI impI)
  assume "value_of self ''qth_type'' \<noteq> ''home'' \<and> value_of self ''qth_type'' \<noteq> ''portable''"
  then show "sublist (qth_row square square (value_of self ''portable_location''))
               (rendered self)"
    using rendered_qth_row [of self] by simp
next
  assume "value_of self ''qsl_type'' \<noteq> ''qso'' \<and> value_of self ''qsl_type'' \<noteq> ''swl''"
  then show "sublist (thanks_row square square) (rendered self)"
    using rendered_thanks_row [of self] by simp
next
  assume "value_of self ''qsl_request'' \<noteq> ''pse'' \<and> value_of self ''qsl_request'' \<noteq> ''tnx''"
  then show "sublist (qsl_row square square) (rendered self)"
    using rendered_qsl_row [of self] by simp
qed (rule rendered_qth_row rendered_thanks_row rendered_qsl_row)+

theorem checkbox_by_own_literal_witness:
  "value_of (cli_object [''qth_type'' \<mapsto> ''mobile'']) ''qth_type'' \<noteq> ''home'' \<and>
   value_of (cli_object [''qth_type'' \<mapsto> ''mobile'']) ''qth_type'' \<noteq> ''portable'' \<and>
   value_of (cli_object [''qth_type'' \<mapsto> ''mobile'']) ''qsl_type'' \<noteq> ''qso'' \<and>
   value_of (cli_object [''qth_type'' \<mapsto> ''mobile'']) ''qsl_type'' \<noteq> ''swl'' \<and>
   value_of (cli_object [''qth_type'' \<mapsto> ''mobile'']) ''qsl_request'' \<noteq> ''pse'' \<and>
   value_of (cli_object [''qth_type'' \<mapsto> ''mobile'']) ''qsl_request'' \<noteq> ''tnx'' \<and>
   sublist (qth_row square square '''') (rendered (cli_object [''qth_type'' \<mapsto> ''mobile''])) \<and>
   sublist (thanks_row square square) (rendered (cli_object [''qth_type'' \<mapsto> ''mobile''])) \<and>
   sublist (qsl_row square square) (rendered (cli_object [''qth_type'' \<mapsto> ''mobile'']))"
  using checkbox_by_own_literal [of "cli_object [''qth_type'' \<mapsto> ''mobile'']"]
  by (simp add: value_of_cli cli_object_def)

text \<open>
  Claim C1 as the specification states it fails: a record whose \<open>qth_type\<close> is \<open>mobile\<close>
  renders a QTH line with both markers unchecked, and the checked glyph stands nowhere
  in the text.
\<close>

theorem checkbox_exactly_one_counterexample:
  "sublist (qth_row square square '''')
     (rendered (cli_object [''callsign'' \<mapsto> ''EA7HQL'', ''qth_type'' \<mapsto> ''mobile''])) \<and>
   \<not> sublist boxtimes
     (rendered (cli_object [''callsign'' \<mapsto> ''EA7HQL'', ''qth_type'' \<mapsto> ''mobile'']))"
proof (rule conjI)
  show "sublist (qth_row square square '''')
     (rendered (cli_object [''callsign'' \<mapsto> ''EA7HQL'', ''qth_type'' \<mapsto> ''mobile'']))"
    using rendered_qth_row
            [of "cli_object [''callsign'' \<mapsto> ''EA7HQL'', ''qth_type'' \<mapsto> ''mobile'']"]
    by (simp add: value_of_cli cli_object_def)
next
  show "\<not> sublist boxtimes
     (rendered (cli_object [''callsign'' \<mapsto> ''EA7HQL'', ''qth_type'' \<mapsto> ''mobile'']))"
    unfolding rendered_def generate_latex_code_def
    apply (simp only: bind_get_field_value Let_def py_return_def fst_conv sum.case)
    apply (simp add: value_of_cli py_or_def cli_object_def)
    apply (simp add: sublist_Cons_right)
    done
qed

text \<open>
  Claim C8. In each checkbox line a marker is the checked glyph only when the choice
  field equals that marker's own literal; the two literals of a pair differ, so the two
  markers of a pair are never both checked.
\<close>

theorem at_most_one_checked:
  "(let home_check = (if value_of self ''qth_type'' = ''home'' then boxtimes else square);
        portable_check = (if value_of self ''qth_type'' = ''portable'' then boxtimes else square);
        qso_check = (if value_of self ''qsl_type'' = ''qso'' then boxtimes else square);
        swl_check = (if value_of self ''qsl_type'' = ''swl'' then boxtimes else square);
        pse_check = (if value_of self ''qsl_request'' = ''pse'' then boxtimes else square);
        tnx_check = (if value_of self ''qsl_request'' = ''tnx'' then boxtimes else square)
    in sublist (qth_row home_check portable_check (value_of self ''portable_location''))
         (rendered self) \<and>
       sublist (thanks_row qso_check swl_check) (rendered self) \<and>
       sublist (qsl_row pse_check tnx_check) (rendered self) \<and>
       (home_check = boxtimes \<longrightarrow> value_of self ''qth_type'' = ''home'') \<and>
       (portable_check = boxtimes \<longrightarrow> value_of self ''qth_type'' = ''portable'') \<and>
       (qso_check = boxtimes \<longrightarrow> value_of self ''qsl_type'' = ''qso'') \<and>
       (swl_check = boxtimes \<longrightarrow> value_of self ''qsl_type'' = ''swl'') \<and>
       (pse_check = boxtimes \<longrightarrow> value_of self ''qsl_request'' = ''pse'') \<and>
       (tnx_check = boxtimes \<longrightarrow> value_of self ''qsl_request'' = ''tnx'') \<and>
       \<not> (home_check = boxtimes \<and> portable_check = boxtimes) \<and>
       \<not> (qso_check = boxtimes \<and> swl_check = boxtimes) \<and>
       \<not> (pse_check = boxtimes \<and> tnx_check = boxtimes))"
  unfolding Let_def
proof (intro conjI)
  show "sublist (qth_row (if value_of self ''qth_type'' = ''home'' then boxtimes else square)
                    (if value_of self ''qth_type'' = ''portable'' then boxtimes else square)
                    (value_of self ''portable_location'')) (rendered self)"
    by (rule rendered_qth_row)
  show "sublist (thanks_row (if value_of self ''qsl_type'' = ''qso'' then boxtimes else square)
                       (if value_of self ''qsl_type'' = ''swl'' then boxtimes else square))
          (rendered self)"
    by (rule rendered_thanks_row)
  show "sublist (qsl_row (if value_of self ''qsl_request'' = ''pse'' then boxtimes else square)
                    (if value_of self ''qsl_request'' = ''tnx'' then boxtimes else square))
          (rendered self)"
    by (rule rendered_qsl_row)
qed simp_all

theorem at_most_one_checked_witness:
  "value_of (init_cli_defaults (cli_object Map.empty)) ''qth_type'' = ''home'' \<and>
   value_of (init_cli_defaults (cli_object Map.empty)) ''qsl_type'' = ''qso'' \<and>
   value_of (init_cli_defaults (cli_object Map.empty)) ''qsl_request'' = ''tnx'' \<and>
   sublist (qth_row boxtimes square '''') (rendered (init_cli_defaults (cli_object Map.empty))) \<and>
   sublist (thanks_row boxtimes square) (rendered (init_cli_defaults (cli_object Map.empty))) \<and>
   sublist (qsl_row square boxtimes) (rendered (init_cli_defaults (cli_object Map.empty)))"
  using at_most_one_checked [of "init_cli_defaults (cli_object Map.empty)"]
  by (simp add: Let_def value_of_cli init_cli_defaults_def cli_object_def)

text \<open>
  Claim C10. In the Power cell the unit text \<open> W\<close> follows the value of the power field
  directly, for every object; with an empty power field the cell holds the bare unit.
\<close>

theorem power_unit:
  "generate_latex_code self = (Inr (rendered self), self) \<and>
   sublist (''{'' @ bs @ ''footnotesize Power} & {'' @ bs @ ''footnotesize '' @ bs @
            ''vphantom{$'' @ bs @ ''dfrac b b$} '' @ value_of self ''power'' @
            '' W} '' @ bs @ bs @ ''\<newline>'') (rendered self) \<and>
   (value_of self ''power'' = [] \<longrightarrow>
    sublist (''{'' @ bs @ ''footnotesize Power} & {'' @ bs @ ''footnotesize '' @ bs @
             ''vphantom{$'' @ bs @ ''dfrac b b$}  W} '' @ bs @ bs @ ''\<newline>'')
      (rendered self))"
proof -
  have w: "sublist (''{'' @ bs @ ''footnotesize Power} & {'' @ bs @ ''footnotesize '' @ bs @
            ''vphantom{$'' @ bs @ ''dfrac b b$} '' @ value_of self ''power'' @
            '' W} '' @ bs @ bs @ ''\<newline>'') (rendered self)"
    unfolding rendered_def generate_latex_code_def
    apply (simp only: bind_get_field_value Let_def py_return_def fst_conv sum.case)
    apply (rule sublist_concat_window
             [where k = 135 and m = 3 and pre = "''} & ''" and post = "[]"])
    apply simp
    done
  show ?thesis
    using w by (auto simp: generate_latex_code_run)
qed

theorem power_unit_witness:
  "value_of (cli_object [''callsign'' \<mapsto> ''EA7HQL'']) ''power'' = [] \<and>
   sublist (''{'' @ bs @ ''footnotesize Power} & {'' @ bs @ ''footnotesize '' @ bs @
            ''vphantom{$'' @ bs @ ''dfrac b b$}  W} '' @ bs @ bs @ ''\<newline>'')
     (rendered (cli_object [''callsign'' \<mapsto> ''EA7HQL'']))"
  using power_unit [of "cli_object [''callsign'' \<mapsto> ''EA7HQL'']"]
  by (simp add: value_of_cli cli_object_def)

text \<open>
  The three choice fields are not printed: two objects that read the same in every other
  field and give the same answers to the six checkbox tests render to the same text.
\<close>

lemma rendered_choice_cong:
  assumes others: "\<forall>field_name. field_name \<notin> {''qth_type'', ''qsl_type'', ''qsl_request''} \<longrightarrow>
                     value_of b field_name = value_of a field_name"
    and home: "(value_of b ''qth_type'' = ''home'') = (value_of a ''qth_type'' = ''home'')"
    and portable: "(value_of b ''qth_type'' = ''portable'') = (value_of a ''qth_type'' = ''portable'')"
    and qso: "(value_of b ''qsl_type'' = ''qso'') = (value_of a ''qsl_type'' = ''qso'')"
    and swl: "(value_of b ''qsl_type'' = ''swl'') = (value_of a ''qsl_type'' = ''swl'')"
    and pse: "(value_of b ''qsl_request'' = ''pse'') = (value_of a ''qsl_request'' = ''pse'')"
    and tnx: "(value_of b ''qsl_request'' = ''tnx'') = (value_of a ''qsl_request'' = ''tnx'')"
  shows "rendered b = rendered a"
proof -
  have printed:
    "value_of b ''callsign'' = value_of a ''callsign''"
    "value_of b ''operator_name'' = value_of a ''operator_name''"
    "value_of b ''qth_city'' = value_of a ''qth_city''"
    "value_of b ''qth_state'' = value_of a ''qth_state''"
    "value_of b ''country'' = value_of a ''country''"
    "value_of b ''grid'' = value_of a ''grid''"
    "value_of b ''cq_zone'' = value_of a ''cq_zone''"
    "value_of b ''itu_zone'' = value_of a ''itu_zone''"
    "value_of b ''email'' = value_of a ''email''"
    "value_of b ''qrz_url'' = value_of a ''qrz_url''"
    "value_of b ''via'' = value_of a ''via''"
    "value_of b ''to_station'' = value_of a ''to_station''"
    "value_of b ''their_call'' = value_of a ''their_call''"
    "value_of b ''date'' = value_of a ''date''"
    "value_of b ''time'' = value_of a ''time''"
    "value_of b ''band'' = value_of a ''band''"
    "value_of b ''mode'' = value_of a ''mode''"
    "value_of b ''report'' = value_of a ''report''"
    "value_of b ''portable_location'' = value_of a ''portable_location''"
    "value_of b ''transceiver'' = value_of a ''transceiver''"
    "value_of b ''power'' = value_of a ''power''"
    "value_of b ''antenna'' = value_of a ''antenna''"
    "value_of b ''satellite'' = value_of a ''satellite''"
    "value_of b ''background_image'' = value_of a ''background_image''"
    "value_of b ''logo1'' = value_of a ''logo1''"
    "value_of b ''logo1_scale'' = value_of a ''logo1_scale''"
    "value_of b ''logo2'' = value_of a ''logo2''"
    "value_of b ''logo2_scale'' = value_of a ''logo2_scale''"
    "value_of b ''logo3'' = value_of a ''logo3''"
    "value_of b ''logo3_scale'' = value_of a ''logo3_scale''"
    using others by simp_all
  show ?thesis
    unfolding rendered_def generate_latex_code_def
    by (simp only: bind_get_field_value Let_def py_return_def fst_conv printed
                   home portable qso swl pse tnx)
qed

text \<open>
  Claim C2, as amended. Each of the seven fields with a default (background image, three
  logos and their scales) stands in its place in the rendered text as the fixed default
  when it reads empty and as the value itself otherwise. Each of the 23 other text fields
  stands in its place as it reads, whatever it is (nothing where it is empty). The three
  choice fields are not printed: the text depends on them only through the six checkbox
  tests.
\<close>

theorem default_substitution:
  "(let callsign = value_of self ''callsign'';
        operator_name = value_of self ''operator_name'';
        qth_city = value_of self ''qth_city'';
        qth_state = value_of self ''qth_state'';
        country = value_of self ''country'';
        grid = value_of self ''grid'';
        cq_zone = value_of self ''cq_zone'';
        itu_zone = value_of self ''itu_zone'';
        email = value_of self ''email'';
        qrz_url = value_of self ''qrz_url'';
        via = value_of self ''via'';
        to_station = value_of self ''to_station'';
        their_call = value_of self ''their_call'';
        date = value_of self ''date'';
        time = value_of self ''time'';
        band = value_of self ''band'';
        mode = value_of self ''mode'';
        report = value_of self ''report'';
        portable_location = value_of self ''portable_location'';
        transceiver = value_of self ''transceiver'';
        power = value_of self ''power'';
        antenna = value_of self ''antenna'';
        satellite = value_of self ''satellite'';
        background_image = value_of self ''background_image'';
        logo1 = value_of self ''logo1'';
        logo1_scale = value_of self ''logo1_scale'';
        logo2 = value_of self ''logo2'';
        logo2_scale = value_of self ''logo2_scale'';
        logo3 = value_of self ''logo3'';
        logo3_scale = value_of self ''logo3_scale''
    in
       sublist (bs @ ''includegraphics[width='' @ bs @ ''paperwidth,height='' @ bs @
                ''paperheight,valign=M,center=-0.55em]{'' @
                (if background_image = [] then ''foto_antenas.jpg'' else background_image) @
                ''}%\<newline>'')
         (rendered self) \<and>
       sublist (bs @ ''includegraphics[width='' @
                (if logo1_scale = [] then ''0.07'' else logo1_scale) @ bs @
                ''textwidth,valign=m]{'' @
                (if logo1 = [] then ''logo_ure_negro.png'' else logo1) @ ''}\<newline>'')
         (rendered self) \<and>
       sublist (bs @ ''includegraphics[width='' @
                (if logo2_scale = [] then ''0.2'' else logo2_scale) @ bs @
                ''textwidth,valign=m]{'' @ (if logo2 = [] then ''qrz_com.png'' else logo2) @
                ''}\<newline>'')
         (rendered self) \<and>
       sublist (bs @ ''includegraphics[width='' @
                (if logo3_scale = [] then ''0.1'' else logo3_scale) @ bs @
                ''textwidth,valign=m]{'' @ (if logo3 = [] then ''lotw.png'' else logo3) @
                ''}\<newline>'')
         (rendered self) \<and>
       sublist (bs @ ''fontsize{60}{72}'' @ bs @ ''selectfont '' @ bs @
                ''textcolor{white}{'' @ bs @ ''contour{black}{'' @ bs @ ''textbf{'' @
                callsign @ ''}}}\<newline>'')
         (rendered self) \<and>
       sublist (''{'' @ bs @ ''huge {'' @ bs @ ''fontfamily{phv}'' @ bs @ ''selectfont '' @
                bs @ ''textcolor{white}{'' @ bs @ ''contour{black}{'' @ bs @ ''textbf{'' @
                operator_name @ ''}}}}}\<newline>'')
         (rendered self) \<and>
       sublist (''{'' @ bs @ ''Large {'' @ bs @ ''fontfamily{phv}'' @ bs @ ''selectfont '' @
                bs @ ''textcolor{white}{'' @ bs @ ''contour{black}{'' @ bs @ ''textbf{'' @
                qth_city @ '', '' @ country @ ''}}}}}\<newline>'')
         (rendered self) \<and>
       sublist (''{'' @ bs @ ''Large '' @ bs @ ''textbf{'' @ callsign @ ''}} '' @ bs @
                ''quad {'' @ bs @ ''textbf{'' @ operator_name @ ''}}\<newline>'')
         (rendered self) \<and>
       sublist (''{'' @ bs @ ''small '' @ qth_city @ '', '' @ qth_state @ '', '' @ country @
                ''}\<newline>'')
         (rendered self) \<and>
       sublist (''{'' @ bs @ ''small Grid: '' @ grid @ '' '' @ bs @ ''quad CQ: '' @ cq_zone @
                '' '' @ bs @ ''quad ITU: '' @ itu_zone @ ''}\<newline>'')
         (rendered self) \<and>
       sublist (''{'' @ bs @ ''small '' @ email @ '' '' @ bs @ ''quad '' @ qrz_url @
                ''}\<newline>'')
         (rendered self) \<and>
       sublist (''{'' @ bs @ ''scriptsize VIA '' @ bs @ ''vphantom{$'' @ bs @ ''int'' @ bs @
                ''limits_{'' @ bs @ ''dfrac aa}$} '' @ via @ ''}'' @ bs @ bs @
                ''\<newline>'')
         (rendered self) \<and>
       sublist (''{'' @ bs @ ''scriptsize TO STATION '' @ bs @ ''vphantom{$'' @ bs @ ''int'' @
                bs @ ''limits_{'' @ bs @ ''dfrac aa}$} '' @ to_station @ ''}'' @ bs @ bs @
                ''\<newline>'')
         (rendered self) \<and>
       sublist (bs @ ''vphantom{$'' @ bs @ ''dfrac b b$} '' @ their_call @ '' & '' @ date @
                '' & '' @ time @ '' & '' @ band @ '' & '' @ mode @ '' & '' @ report @ '' '' @
                bs @ bs @ ''\<newline>'')
         (rendered self) \<and>
       sublist (''Portable: '' @ portable_location @ ''}} '' @ bs @ bs @ ''\<newline>'')
         (rendered self) \<and>
       sublist (''{'' @ bs @ ''footnotesize Transceiver} & {'' @ bs @ ''footnotesize '' @ bs @
                ''vphantom{$'' @ bs @ ''dfrac b b$} '' @ transceiver @ ''} & {'' @ bs @
                ''footnotesize Power} & {'' @ bs @ ''footnotesize '' @ bs @ ''vphantom{$'' @
                bs @ ''dfrac b b$} '' @ power @ '' W} '' @ bs @ bs @ ''\<newline>'')
         (rendered self) \<and>
       sublist (''{'' @ bs @ ''footnotesize Antenna} & {'' @ bs @ ''footnotesize '' @ bs @
                ''vphantom{$'' @ bs @ ''dfrac b b$} '' @ antenna @ ''} & {'' @ bs @
                ''footnotesize Via Sat.} & {'' @ bs @ ''footnotesize '' @ bs @
                ''vphantom{$'' @ bs @ ''dfrac b b$} '' @ satellite @ ''} '' @ bs @ bs @
                ''\<newline>'')
         (rendered self)) \<and>
   (\<forall>other.
      (\<forall>field_name. field_name \<notin> {''qth_type'', ''qsl_type'', ''qsl_request''} \<longrightarrow>
         value_of other field_name = value_of self field_name) \<and>
      (value_of other ''qth_type'' = ''home'') = (value_of self ''qth_type'' = ''home'') \<and>
      (value_of other ''qth_type'' = ''portable'') =
        (value_of self ''qth_type'' = ''portable'') \<and>
      (value_of other ''qsl_type'' = ''qso'') = (value_of self ''qsl_type'' = ''qso'') \<and>
      (value_of other ''qsl_type'' = ''swl'') = (value_of self ''qsl_type'' = ''swl'') \<and>
      (value_of other ''qsl_request'' = ''pse'') = (value_of self ''qsl_request'' = ''pse'') \<and>
      (value_of other ''qsl_request'' = ''tnx'') = (value_of self ''qsl_request'' = ''tnx'')
      \<longrightarrow> rendered other = rendered self)"
proof (rule conjI)
  show "\<forall>other.
      (\<forall>field_name. field_name \<notin> {''qth_type'', ''qsl_type'', ''qsl_request''} \<longrightarrow>
         value_of other field_name = value_of self field_name) \<and>
      (value_of other ''qth_type'' = ''home'') = (value_of self ''qth_type'' = ''home'') \<and>
      (value_of other ''qth_type'' = ''portable'') =
        (value_of self ''qth_type'' = ''portable'') \<and>
      (value_of other ''qsl_type'' = ''qso'') = (value_of self ''qsl_type'' = ''qso'') \<and>
      (value_of other ''qsl_type'' = ''swl'') = (value_of self ''qsl_type'' = ''swl'') \<and>
      (value_of other ''qsl_request'' = ''pse'') = (value_of self ''qsl_request'' = ''pse'') \<and>
      (value_of other ''qsl_request'' = ''tnx'') = (value_of self ''qsl_request'' = ''tnx'')
      \<longrightarrow> rendered other = rendered self"
    by (intro allI impI, elim conjE, rule rendered_choice_cong)
next
  show "(let callsign = value_of self ''callsign'';
        operator_name = value_of self ''operator_name'';
        qth_city = value_of self ''qth_city'';
        qth_state = value_of self ''qth_state'';
        country = value_of self ''country'';
        grid = value_of self ''grid'';
        cq_zone = value_of self ''cq_zone'';
        itu_zone = value_of self ''itu_zone'';
        email = value_of self ''email'';
        qrz_url = value_of self ''qrz_url'';
        via = value_of self ''via'';
        to_station = value_of self ''to_station'';
        their_call = value_of self ''their_call'';
        date = value_of self ''date'';
        time = value_of self ''time'';
        band = value_of self ''band'';
        mode = value_of self ''mode'';
        report = value_of self ''report'';
        portable_location = value_of self ''portable_location'';
        transceiver = value_of self ''transceiver'';
        power = value_of self ''power'';
        antenna = value_of self ''antenna'';
        satellite = value_of self ''satellite'';
        background_image = value_of self ''background_image'';
        logo1 = value_of self ''logo1'';
        logo1_scale = value_of self ''logo1_scale'';
        logo2 = value_of self ''logo2'';
        logo2_scale = value_of self ''logo2_scale'';
        logo3 = value_of self ''logo3'';
        logo3_scale = value_of self ''logo3_scale''
    in
       sublist (bs @ ''includegraphics[width='' @ bs @ ''paperwidth,height='' @ bs @
                ''paperheight,valign=M,center=-0.55em]{'' @
                (if background_image = [] then ''foto_antenas.jpg'' else background_image) @
                ''}%\<newline>'')
         (rendered self) \<and>
       sublist (bs @ ''includegraphics[width='' @
                (if logo1_scale = [] then ''0.07'' else logo1_scale) @ bs @
                ''textwidth,valign=m]{'' @
                (if logo1 = [] then ''logo_ure_negro.png'' else logo1) @ ''}\<newline>'')
         (rendered self) \<and>
       sublist (bs @ ''includegraphics[width='' @
                (if logo2_scale = [] then ''0.2'' else logo2_scale) @ bs @
                ''textwidth,valign=m]{'' @ (if logo2 = [] then ''qrz_com.png'' else logo2) @
                ''}\<newline>'')
         (rendered self) \<and>
       sublist (bs @ ''includegraphics[width='' @
                (if logo3_scale = [] then ''0.1'' else logo3_scale) @ bs @
                ''textwidth,valign=m]{'' @ (if logo3 = [] then ''lotw.png'' else logo3) @
                ''}\<newline>'')
         (rendered self) \<and>
       sublist (bs @ ''fontsize{60}{72}'' @ bs @ ''selectfont '' @ bs @
                ''textcolor{white}{'' @ bs @ ''contour{black}{'' @ bs @ ''textbf{'' @
                callsign @ ''}}}\<newline>'')
         (rendered self) \<and>
       sublist (''{'' @ bs @ ''huge {'' @ bs @ ''fontfamily{phv}'' @ bs @ ''selectfont '' @
                bs @ ''textcolor{white}{'' @ bs @ ''contour{black}{'' @ bs @ ''textbf{'' @
                operator_name @ ''}}}}}\<newline>'')
         (rendered self) \<and>
       sublist (''{'' @ bs @ ''Large {'' @ bs @ ''fontfamily{phv}'' @ bs @ ''selectfont '' @
                bs @ ''textcolor{white}{'' @ bs @ ''contour{black}{'' @ bs @ ''textbf{'' @
                qth_city @ '', '' @ country @ ''}}}}}\<newline>'')
         (rendered self) \<and>
       sublist (''{'' @ bs @ ''Large '' @ bs @ ''textbf{'' @ callsign @ ''}} '' @ bs @
                ''quad {'' @ bs @ ''textbf{'' @ operator_name @ ''}}\<newline>'')
         (rendered self) \<and>
       sublist (''{'' @ bs @ ''small '' @ qth_city @ '', '' @ qth_state @ '', '' @ country @
                ''}\<newline>'')
         (rendered self) \<and>
       sublist (''{'' @ bs @ ''small Grid: '' @ grid @ '' '' @ bs @ ''quad CQ: '' @ cq_zone @
                '' '' @ bs @ ''quad ITU: '' @ itu_zone @ ''}\<newline>'')
         (rendered self) \<and>
       sublist (''{'' @ bs @ ''small '' @ email @ '' '' @ bs @ ''quad '' @ qrz_url @
                ''}\<newline>'')
         (rendered self) \<and>
       sublist (''{'' @ bs @ ''scriptsize VIA '' @ bs @ ''vphantom{$'' @ bs @ ''int'' @ bs @
                ''limits_{'' @ bs @ ''dfrac aa}$} '' @ via @ ''}'' @ bs @ bs @
                ''\<newline>'')
         (rendered self) \<and>
       sublist (''{'' @ bs @ ''scriptsize TO STATION '' @ bs @ ''vphantom{$'' @ bs @ ''int'' @
                bs @ ''limits_{'' @ bs @ ''dfrac aa}$} '' @ to_station @ ''}'' @ bs @ bs @
                ''\<newline>'')
         (rendered self) \<and>
       sublist (bs @ ''vphantom{$'' @ bs @ ''dfrac b b$} '' @ their_call @ '' & '' @ date @
                '' & '' @ time @ '' & '' @ band @ '' & '' @ mode @ '' & '' @ report @ '' '' @
                bs @ bs @ ''\<newline>'')
         (rendered self) \<and>
       sublist (''Portable: '' @ portable_location @ ''}} '' @ bs @ bs @ ''\<newline>'')
         (rendered self) \<and>
       sublist (''{'' @ bs @ ''footnotesize Transceiver} & {'' @ bs @ ''footnotesize '' @ bs @
                ''vphantom{$'' @ bs @ ''dfrac b b$} '' @ transceiver @ ''} & {'' @ bs @
                ''footnotesize Power} & {'' @ bs @ ''footnotesize '' @ bs @ ''vphantom{$'' @
                bs @ ''dfrac b b$} '' @ power @ '' W} '' @ bs @ bs @ ''\<newline>'')
         (rendered self) \<and>
       sublist (''{'' @ bs @ ''footnotesize Antenna} & {'' @ bs @ ''footnotesize '' @ bs @
                ''vphantom{$'' @ bs @ ''dfrac b b$} '' @ antenna @ ''} & {'' @ bs @
                ''footnotesize Via Sat.} & {'' @ bs @ ''footnotesize '' @ bs @
                ''vphantom{$'' @ bs @ ''dfrac b b$} '' @ satellite @ ''} '' @ bs @ bs @
                ''\<newline>'')
         (rendered self))"
    unfolding rendered_def generate_latex_code_def
    apply (simp only: bind_get_field_value Let_def py_return_def fst_conv sum.case)
    apply (intro conjI)
    apply (rule sublist_concat_window [where k = 22 and m = 3 and pre = "''        ''" and post = "[]"], simp add: py_or_def)
    apply (rule sublist_concat_window [where k = 166 and m = 5 and pre = "[]" and post = "[]"], simp add: py_or_def)
    apply (rule sublist_concat_window [where k = 171 and m = 5 and pre = "[]" and post = "[]"], simp add: py_or_def)
    apply (rule sublist_concat_window [where k = 176 and m = 5 and pre = "[]" and post = "[]"], simp add: py_or_def)
    apply (rule sublist_concat_window [where k = 32 and m = 3 and pre = "bs @ ''fontfamily{phv}'' @ bs @ ''selectfont ''" and post = "[]"], simp add: py_or_def)
    apply (rule sublist_concat_window [where k = 40 and m = 3 and pre = "[]" and post = "[]"], simp add: py_or_def)
    apply (rule sublist_concat_window [where k = 45 and m = 5 and pre = "[]" and post = "[]"], simp add: py_or_def)
    apply (rule sublist_concat_window [where k = 54 and m = 5 and pre = "[]" and post = "[]"], simp add: py_or_def)
    apply (rule sublist_concat_window [where k = 60 and m = 7 and pre = "[]" and post = "[]"], simp add: py_or_def)
    apply (rule sublist_concat_window [where k = 68 and m = 7 and pre = "[]" and post = "[]"], simp add: py_or_def)
    apply (rule sublist_concat_window [where k = 76 and m = 5 and pre = "[]" and post = "[]"], simp add: py_or_def)
    apply (rule sublist_concat_window [where k = 87 and m = 3 and pre = "[]" and post = "[]"], simp add: py_or_def)
    apply (rule sublist_concat_window [where k = 91 and m = 3 and pre = "[]" and post = "[]"], simp add: py_or_def)
    apply (rule sublist_concat_window [where k = 105 and m = 13 and pre = "[]" and post = "[]"], simp add: py_or_def)
    apply (rule sublist_concat_window [where k = 129 and m = 3 and pre = "'' ''" and post = "[]"], simp add: py_or_def)
    apply (rule sublist_concat_window [where k = 133 and m = 5 and pre = "[]" and post = "[]"], simp add: py_or_def)
    apply (rule sublist_concat_window [where k = 139 and m = 5 and pre = "[]" and post = "[]"], simp add: py_or_def)
    done
qed

theorem default_substitution_witness:
  "sublist (bs @ ''includegraphics[width='' @ bs @ ''paperwidth,height='' @ bs @
            ''paperheight,valign=M,center=-0.55em]{foto_antenas.jpg}%\<newline>'')
     (rendered (cli_object [''logo1'' \<mapsto> ''my.png'', ''grid'' \<mapsto> ''IM76SP''])) \<and>
   sublist (bs @ ''includegraphics[width=0.07'' @ bs @
            ''textwidth,valign=m]{my.png}\<newline>'')
     (rendered (cli_object [''logo1'' \<mapsto> ''my.png'', ''grid'' \<mapsto> ''IM76SP''])) \<and>
   sublist (''{'' @ bs @ ''small Grid: IM76SP '' @ bs @ ''quad CQ:  '' @ bs @
            ''quad ITU: }\<newline>'')
     (rendered (cli_object [''logo1'' \<mapsto> ''my.png'', ''grid'' \<mapsto> ''IM76SP''])) \<and>
   value_of (cli_object [''logo1'' \<mapsto> ''my.png'', ''qth_type'' \<mapsto> ''mobile'']) ''logo1'' =
   value_of (cli_object [''logo1'' \<mapsto> ''my.png'', ''qth_type'' \<mapsto> ''maritime'']) ''logo1'' \<and>
   rendered (cli_object [''logo1'' \<mapsto> ''my.png'', ''qth_type'' \<mapsto> ''mobile'']) =
   rendered (cli_object [''logo1'' \<mapsto> ''my.png'', ''qth_type'' \<mapsto> ''maritime''])"
proof -
  have same: "\<forall>field_name. field_name \<notin> {''qth_type'', ''qsl_type'', ''qsl_request''} \<longrightarrow>
      value_of (cli_object [''logo1'' \<mapsto> ''my.png'', ''qth_type'' \<mapsto> ''mobile'']) field_name =
      value_of (cli_object [''logo1'' \<mapsto> ''my.png'', ''qth_type'' \<mapsto> ''maritime'']) field_name"
    by (simp add: value_of_cli cli_object_def)
  have tests:
    "(value_of (cli_object [''logo1'' \<mapsto> ''my.png'', ''qth_type'' \<mapsto> ''mobile'']) ''qth_type'' = ''home'') =
     (value_of (cli_object [''logo1'' \<mapsto> ''my.png'', ''qth_type'' \<mapsto> ''maritime'']) ''qth_type'' = ''home'')"
    "(value_of (cli_object [''logo1'' \<mapsto> ''my.png'', ''qth_type'' \<mapsto> ''mobile'']) ''qth_type'' = ''portable'') =
     (value_of (cli_object [''logo1'' \<mapsto> ''my.png'', ''qth_type'' \<mapsto> ''maritime'']) ''qth_type'' = ''portable'')"
    "(value_of (cli_object [''logo1'' \<mapsto> ''my.png'', ''qth_type'' \<mapsto> ''mobile'']) ''qsl_type'' = ''qso'') =
     (value_of (cli_object [''logo1'' \<mapsto> ''my.png'', ''qth_type'' \<mapsto> ''maritime'']) ''qsl_type'' = ''qso'')"
    "(value_of (cli_object [''logo1'' \<mapsto> ''my.png'', ''qth_type'' \<mapsto> ''mobile'']) ''qsl_type'' = ''swl'') =
     (value_of (cli_object [''logo1'' \<mapsto> ''my.png'', ''qth_type'' \<mapsto> ''maritime'']) ''qsl_type'' = ''swl'')"
    "(value_of (cli_object [''logo1'' \<mapsto> ''my.png'', ''qth_type'' \<mapsto> ''mobile'']) ''qsl_request'' = ''pse'') =
     (value_of (cli_object [''logo1'' \<mapsto> ''my.png'', ''qth_type'' \<mapsto> ''maritime'']) ''qsl_request'' = ''pse'')"
    "(value_of (cli_object [''logo1'' \<mapsto> ''my.png'', ''qth_type'' \<mapsto> ''mobile'']) ''qsl_request'' = ''tnx'') =
     (value_of (cli_object [''logo1'' \<mapsto> ''my.png'', ''qth_type'' \<mapsto> ''maritime'']) ''qsl_request'' = ''tnx'')"
    by (simp_all add: value_of_cli cli_object_def)
  have printed:
    "sublist (bs @ ''includegraphics[width='' @ bs @ ''paperwidth,height='' @ bs @
              ''paperheight,valign=M,center=-0.55em]{foto_antenas.jpg}%\<newline>'')
       (rendered (cli_object [''logo1'' \<mapsto> ''my.png'', ''grid'' \<mapsto> ''IM76SP''])) \<and>
     sublist (bs @ ''includegraphics[width=0.07'' @ bs @
              ''textwidth,valign=m]{my.png}\<newline>'')
       (rendered (cli_object [''logo1'' \<mapsto> ''my.png'', ''grid'' \<mapsto> ''IM76SP''])) \<and>
     sublist (''{'' @ bs @ ''small Grid: IM76SP '' @ bs @ ''quad CQ:  '' @ bs @
              ''quad ITU: }\<newline>'')
       (rendered (cli_object [''logo1'' \<mapsto> ''my.png'', ''grid'' \<mapsto> ''IM76SP'']))"
    using default_substitution
            [of "cli_object [''logo1'' \<mapsto> ''my.png'', ''grid'' \<mapsto> ''IM76SP'']", THEN conjunct1]
    by (simp add: Let_def value_of_cli cli_object_def)
  have "rendered (cli_object [''logo1'' \<mapsto> ''my.png'', ''qth_type'' \<mapsto> ''mobile'']) =
        rendered (cli_object [''logo1'' \<mapsto> ''my.png'', ''qth_type'' \<mapsto> ''maritime''])"
    using default_substitution
            [of "cli_object [''logo1'' \<mapsto> ''my.png'', ''qth_type'' \<mapsto> ''maritime'']",
             THEN conjunct2, rule_format,
             of "cli_object [''logo1'' \<mapsto> ''my.png'', ''qth_type'' \<mapsto> ''mobile'']"]
          same tests
    by blast
  then show ?thesis
    using printed same by simp
qed

text \<open>
  Claim C2 as the specification states it fails for the choice fields: a \<open>qth_type\<close> of
  \<open>mobile\<close> does not pass through to the rendered text.
\<close>

theorem choice_field_counterexample:
  "value_of (cli_object [''qth_type'' \<mapsto> ''mobile'']) ''qth_type'' = ''mobile'' \<and>
   \<not> sublist ''mobile'' (rendered (cli_object [''qth_type'' \<mapsto> ''mobile'']))"
proof (rule conjI)
  show "value_of (cli_object [''qth_type'' \<mapsto> ''mobile'']) ''qth_type'' = ''mobile''"
    by (simp add: value_of_cli cli_object_def)
next
  show "\<not> sublist ''mobile'' (rendered (cli_object [''qth_type'' \<mapsto> ''mobile'']))"
    unfolding rendered_def generate_latex_code_def
    apply (simp only: bind_get_field_value Let_def py_return_def fst_conv sum.case)
    apply (simp add: value_of_cli py_or_def cli_object_def)
    apply (simp add: sublist_Cons_right)
    done
qed

section \<open>Saving and loading the defaults\<close>


lemma collect_settings_map_of:
  "map_of (collect_settings names self acc) n =
     (if n \<in> set names then
        (case fields_dict self n of
           None \<Rightarrow> map_of acc n
         | Some (StringVar v) \<Rightarrow> Some v
         | Some (Entry text) \<Rightarrow> Some text)
      else map_of acc n)"
  by (induction names arbitrary: acc)
     (auto simp: update_conv' split: option.splits widget.splits)

lemma collect_settings_distinct:
  "distinct (map fst acc) \<Longrightarrow> distinct (map fst (collect_settings names self acc))"
  by (induction names arbitrary: acc)
     (auto simp: distinct_update split: option.splits widget.splits)

lemma collect_settings_keys:
  "fst ` set (collect_settings names self acc) \<subseteq> set names \<union> fst ` set acc"
proof (induction names arbitrary: acc)
  case Nil
  then show ?case by simp
next
  case (Cons x names)
  show ?case
    using Cons.IH [of "case fields_dict self x of
          None \<Rightarrow> acc
        | Some field \<Rightarrow>
            (case field of
               StringVar v \<Rightarrow> AList.update x v acc
             | Entry text \<Rightarrow> AList.update x text acc)"]
    by (auto simp: dom_update split: option.splits widget.splits)
qed

lemma apply_settings_frame:
  "root (apply_settings settings self) = root self \<and>
   settings_file (apply_settings settings self) = settings_file self \<and>
   status_label (apply_settings settings self) = status_label self \<and>
   data (apply_settings settings self) = data self"
  by (induction settings self rule: apply_settings.induct)
     (auto split: option.splits widget.splits)

lemma apply_settings_fields:
  "distinct (map fst settings) \<Longrightarrow>
   fields_dict (apply_settings settings self) n =
     (case map_of settings n of
        None \<Rightarrow> fields_dict self n
      | Some v \<Rightarrow>
          (case fields_dict self n of
             None \<Rightarrow> None
           | Some (StringVar old) \<Rightarrow> Some (StringVar v)
           | Some (Entry text) \<Rightarrow> Some (Entry v)))"
proof (induction settings self rule: apply_settings.induct)
  case (1 self)
  then show ?case by simp
next
  case (2 field_name v items self)
  have fresh: "map_of items field_name = None"
    using "2.prems" by (simp add: map_of_eq_None_iff)
  show ?case
    using "2.IH" "2.prems" fresh
    by (auto split: option.splits widget.splits)
qed

lemma apply_settings_untouched:
  "n \<notin> fst ` set settings \<Longrightarrow>
   fields_dict (apply_settings settings self) n = fields_dict self n"
  by (induction settings self rule: apply_settings.induct)
     (auto split: option.splits widget.splits)

lemma form_root: "root (form env)"
  by (simp add: form_def setup_status_bar_def setup_station_tab_def setup_contact_tab_def
                new_entry_def new_stringvar_def Let_def)

lemma form_entry:
  "n \<in> set save_fields \<Longrightarrow> fields_dict (form env) n = Some (Entry '''')"
  by (auto simp: form_def setup_status_bar_def setup_station_tab_def setup_contact_tab_def
                new_entry_def new_stringvar_def Let_def save_fields_def)

lemma update_status_frame:
  "root (update_status message self) = root self \<and>
   fields_dict (update_status message self) = fields_dict self \<and>
   data (update_status message self) = data self \<and>
   settings_file (update_status message self) = settings_file self"
  by (simp add: update_status_def split: option.splits)

text \<open>The widgets of the form as the two tabs build it.\<close>

lemma form_fields:
  "fields_dict (form env) =
     (map_of (map (\<lambda>n. (n, Entry ''''))
        [''callsign'', ''operator_name'', ''qth_city'', ''qth_state'', ''country'',
         ''grid'', ''cq_zone'', ''itu_zone'', ''email'', ''qrz_url'',
         ''transceiver'', ''power'', ''antenna'', ''satellite'',
         ''background_image'', ''logo1'', ''logo1_scale'', ''logo2'', ''logo2_scale'',
         ''logo3'', ''logo3_scale'', ''via'', ''to_station'', ''their_call'', ''date'',
         ''time'', ''band'', ''mode'', ''report'', ''portable_location'']))
     (''qth_type'' \<mapsto> StringVar ''home'', ''qsl_type'' \<mapsto> StringVar ''qso'',
      ''qsl_request'' \<mapsto> StringVar ''tnx'')"
  by (rule ext)
     (simp add: form_def setup_status_bar_def setup_station_tab_def setup_contact_tab_def
                new_entry_def new_stringvar_def Let_def)

lemma form_settings_file:
  "settings_file (form env) = home env @ ''/.qsl_generator_settings.json''"
  by (simp add: form_def setup_status_bar_def setup_station_tab_def setup_contact_tab_def
                new_entry_def new_stringvar_def Let_def)


text \<open>
  Claim C5, as amended. Saving the defaults of a form and loading them into a freshly
  built form (same settings path, the write succeeding) brings back every field of the
  allow-list as the first form reads it. The file written holds only names of the
  allow-list. Loading leaves every other widget of the fresh form as it was built: the
  nine contact entries stay empty, and the three choice fields keep the selections the
  form is built with (\<open>home\<close>, \<open>qso\<close>, \<open>tnx\<close>), which are not the empty string. Loading
  any settings file leaves alone every widget that the file does not name, and makes
  every widget that it names hold the value of the file in place of what it held.
\<close>

theorem settings_round_trip:
  assumes "root self" and "write_error env = None"
    and "settings_file self = settings_file (form env)"
  shows "(let (self1, w1) = save_settings env (self, w);
              (self2, w2) = load_settings env (form env, w1)
          in (\<exists>settings. files w1 (settings_file self) = Some (Json settings) \<and>
                         set (map fst settings) \<subseteq> set save_fields) \<and>
             (\<forall>n \<in> set save_fields. value_of self2 n = value_of self n) \<and>
             (\<forall>n. n \<notin> set save_fields \<longrightarrow> fields_dict self2 n = fields_dict (form env) n) \<and>
             (\<forall>n \<in> set [''via'', ''to_station'', ''their_call'', ''date'', ''time'', ''band'',
                        ''mode'', ''report'', ''portable_location'']. value_of self2 n = '''') \<and>
             value_of self2 ''qth_type'' = ''home'' \<and>
             value_of self2 ''qsl_type'' = ''qso'' \<and>
             value_of self2 ''qsl_request'' = ''tnx'') \<and>
         (\<forall>loaded self0 w0 n.
            files w0 (settings_file self0) = Some (Json loaded) \<and> n \<notin> fst ` set loaded \<longrightarrow>
            fields_dict (fst (load_settings env (self0, w0))) n = fields_dict self0 n) \<and>
         (\<forall>loaded self0 w0 n v.
            root self0 \<and> files w0 (settings_file self0) = Some (Json loaded) \<and>
            distinct (map fst loaded) \<and> (n, v) \<in> set loaded \<and> fields_dict self0 n \<noteq> None \<longrightarrow>
            value_of (fst (load_settings env (self0, w0))) n = v)"
proof -
  define settings where "settings = collect_settings save_fields self []"
  define w1 where "w1 = messagebox (ShowInfo ''Success''
                (''Default settings saved to:\<newline>'' @ settings_file self))
              (w\<lparr>files := (files w)(settings_file self \<mapsto> Json settings)\<rparr>)"
  define self2 where "self2 = update_status (''Settings loaded from '' @ settings_file (form env))
                  (apply_settings settings (form env))"
  have saved: "save_settings env (self, w) =
                 (update_status ''Settings saved successfully'' self, w1)"
    using assms(2) by (simp add: save_settings_def Let_def w1_def settings_def)
  have written: "files w1 (settings_file self) = Some (Json settings)"
    by (simp add: messagebox_def w1_def)
  have loaded: "load_settings env (form env, w1) = (self2, w1)"
    using written assms(3) by (simp add: load_settings_def self2_def)
  have keys: "set (map fst settings) \<subseteq> set save_fields"
    using collect_settings_keys [of save_fields self "[]"] by (simp add: settings_def)
  have dist: "distinct (map fst settings)"
    unfolding settings_def by (rule collect_settings_distinct) simp
  have fields2: "fields_dict self2 n =
      (case map_of settings n of
         None \<Rightarrow> fields_dict (form env) n
       | Some v \<Rightarrow>
           (case fields_dict (form env) n of
              None \<Rightarrow> None
            | Some (StringVar old) \<Rightarrow> Some (StringVar v)
            | Some (Entry text) \<Rightarrow> Some (Entry v)))" for n
    using apply_settings_fields [OF dist, of "form env" n]
    by (simp add: self2_def update_status_def split: option.splits)
  have root2: "root self2"
    using form_root [of env] apply_settings_frame [of settings "form env"]
    by (simp add: self2_def update_status_def split: option.splits)
  have lookup: "map_of settings n =
      (if n \<in> set save_fields then
         (case fields_dict self n of
            None \<Rightarrow> None
          | Some (StringVar v) \<Rightarrow> Some v
          | Some (Entry text) \<Rightarrow> Some text)
       else None)" for n
    unfolding settings_def
    by (simp add: collect_settings_map_of split: option.splits widget.splits)
  have allow: "value_of self2 n = value_of self n" if "n \<in> set save_fields" for n
    using that form_entry [OF that, of env]
    by (simp add: value_of_gui [OF root2] value_of_gui [OF assms(1)] fields2 lookup
             split: option.splits widget.splits)
  have others: "fields_dict self2 n = fields_dict (form env) n"
    if "n \<notin> set save_fields" for n
    using that by (simp add: fields2 lookup)
  have contact: "value_of self2 n = ''''"
    if "n \<in> set [''via'', ''to_station'', ''their_call'', ''date'', ''time'', ''band'',
                  ''mode'', ''report'', ''portable_location'']" for n
  proof -
    have "n \<notin> set save_fields"
      using that by (auto simp: save_fields_def)
    moreover have "fields_dict (form env) n = Some (Entry '''')"
      using that by (auto simp: form_fields)
    ultimately show ?thesis
      by (simp add: value_of_gui [OF root2] others)
  qed
  have choice: "value_of self2 ''qth_type'' = ''home'' \<and>
                value_of self2 ''qsl_type'' = ''qso'' \<and>
                value_of self2 ''qsl_request'' = ''tnx''"
  proof -
    have "''qth_type'' \<notin> set save_fields \<and> ''qsl_type'' \<notin> set save_fields \<and>
          ''qsl_request'' \<notin> set save_fields"
      by (simp add: save_fields_def)
    moreover have "fields_dict (form env) ''qth_type'' = Some (StringVar ''home'') \<and>
                   fields_dict (form env) ''qsl_type'' = Some (StringVar ''qso'') \<and>
                   fields_dict (form env) ''qsl_request'' = Some (StringVar ''tnx'')"
      by (simp add: form_fields)
    ultimately show ?thesis
      by (simp add: value_of_gui [OF root2] others)
  qed
  have import: "fields_dict (fst (load_settings env (self0, w0))) n = fields_dict self0 n"
    if "files w0 (settings_file self0) = Some (Json loaded) \<and> n \<notin> fst ` set loaded"
    for loaded self0 w0 n
    using that
    by (simp add: load_settings_def update_status_def apply_settings_untouched
             split: option.splits)
  have overwrite: "value_of (fst (load_settings env (self0, w0))) n = v"
    if h: "root self0 \<and> files w0 (settings_file self0) = Some (Json loaded) \<and>
           distinct (map fst loaded) \<and> (n, v) \<in> set loaded \<and> fields_dict self0 n \<noteq> None"
    for loaded self0 w0 n v
  proof -
    define self3 where "self3 = fst (load_settings env (self0, w0))"
    have f3: "fields_dict self3 = fields_dict (apply_settings loaded self0)"
      using h by (simp add: self3_def load_settings_def update_status_frame)
    have r3: "root self3"
      using h by (simp add: self3_def load_settings_def update_status_frame
                            apply_settings_frame)
    have m: "map_of loaded n = Some v"
      using h by simp
    have "fields_dict self3 n =
        (case fields_dict self0 n of
           None \<Rightarrow> None
         | Some (StringVar old) \<Rightarrow> Some (StringVar v)
         | Some (Entry text) \<Rightarrow> Some (Entry v))"
      using h apply_settings_fields [of loaded self0 n] by (simp add: f3 m)
    then show ?thesis
      using h unfolding self3_def [symmetric]
      by (auto simp: value_of_gui [OF r3] split: option.splits widget.splits)
  qed
  have round_trip:
    "(\<exists>settings. files w1 (settings_file self) = Some (Json settings) \<and>
                    set (map fst settings) \<subseteq> set save_fields) \<and>
     (\<forall>n \<in> set save_fields. value_of self2 n = value_of self n) \<and>
     (\<forall>n. n \<notin> set save_fields \<longrightarrow> fields_dict self2 n = fields_dict (form env) n) \<and>
     (\<forall>n \<in> set [''via'', ''to_station'', ''their_call'', ''date'', ''time'', ''band'',
                ''mode'', ''report'', ''portable_location'']. value_of self2 n = '''') \<and>
     value_of self2 ''qth_type'' = ''home'' \<and>
     value_of self2 ''qsl_type'' = ''qso'' \<and>
     value_of self2 ''qsl_request'' = ''tnx''"
    using written keys allow others contact choice by blast
  show ?thesis
    unfolding saved Let_def prod.case loaded
    using round_trip import overwrite by blast
qed

theorem settings_round_trip_witness:
  "root (gui_object [''callsign'' \<mapsto> Entry ''EA7HQL'', ''their_call'' \<mapsto> Entry ''DL1ABC'']) \<and>
   write_error timeout_env = None \<and>
   settings_file (gui_object [''callsign'' \<mapsto> Entry ''EA7HQL'',
                              ''their_call'' \<mapsto> Entry ''DL1ABC'']) =
     settings_file (form timeout_env) \<and>
   value_of (fst (load_settings timeout_env
       (form timeout_env,
        snd (save_settings timeout_env
          (gui_object [''callsign'' \<mapsto> Entry ''EA7HQL'', ''their_call'' \<mapsto> Entry ''DL1ABC''],
           empty_world))))) ''callsign'' = ''EA7HQL'' \<and>
   value_of (fst (load_settings timeout_env
       (form timeout_env,
        snd (save_settings timeout_env
          (gui_object [''callsign'' \<mapsto> Entry ''EA7HQL'', ''their_call'' \<mapsto> Entry ''DL1ABC''],
           empty_world))))) ''their_call'' = '''' \<and>
   value_of (fst (load_settings timeout_env
       (gui_object [''callsign'' \<mapsto> Entry ''OLD''],
        empty_world\<lparr>files := [''/home/op/.qsl_generator_settings.json'' \<mapsto>
                                 Json [(''callsign'', ''EA7HQL'')]]\<rparr>))) ''callsign'' = ''EA7HQL''"
proof -
  let ?self = "gui_object [''callsign'' \<mapsto> Entry ''EA7HQL'', ''their_call'' \<mapsto> Entry ''DL1ABC'']"
  let ?old = "gui_object [''callsign'' \<mapsto> Entry ''OLD'']"
  let ?w0 = "empty_world\<lparr>files := [''/home/op/.qsl_generator_settings.json'' \<mapsto>
                                    Json [(''callsign'', ''EA7HQL'')]]\<rparr>"
  have h1: "root ?self"
    by (simp add: gui_object_def)
  have h2: "write_error timeout_env = None"
    by (simp add: timeout_env_def)
  have h3: "settings_file ?self = settings_file (form timeout_env)"
    by (simp add: gui_object_def timeout_env_def form_settings_file)
  have v: "value_of ?self ''callsign'' = ''EA7HQL''"
    by (simp add: value_of_gui gui_object_def)
  have m: "''callsign'' \<in> set save_fields"
    by (simp add: save_fields_def)
  have c: "''their_call'' \<in> set [''via'', ''to_station'', ''their_call'', ''date'', ''time'',
             ''band'', ''mode'', ''report'', ''portable_location'']"
    by simp
  have o: "root ?old \<and> files ?w0 (settings_file ?old) = Some (Json [(''callsign'', ''EA7HQL'')]) \<and>
           distinct (map fst [(''callsign'', ''EA7HQL'')]) \<and>
           (''callsign'', ''EA7HQL'') \<in> set [(''callsign'', ''EA7HQL'')] \<and>
           fields_dict ?old ''callsign'' \<noteq> None"
    by (simp add: gui_object_def empty_world_def)
  note rt = settings_round_trip [OF h1 h2 h3, of empty_world]
  have "value_of (fst (load_settings timeout_env (?old, ?w0))) ''callsign'' = ''EA7HQL''"
    using rt [THEN conjunct2, THEN conjunct2, rule_format, OF o] .
  moreover have
    "value_of (fst (load_settings timeout_env
       (form timeout_env, snd (save_settings timeout_env (?self, empty_world)))))
       ''callsign'' = ''EA7HQL'' \<and>
     value_of (fst (load_settings timeout_env
       (form timeout_env, snd (save_settings timeout_env (?self, empty_world)))))
       ''their_call'' = ''''"
    using rt [THEN conjunct1] v m c
    by (auto simp: Let_def split_beta simp del: set_simps)
  ultimately show ?thesis
    using h1 h2 h3 by simp
qed

text \<open>
  Claim C5 as the specification states it fails for the choice fields: after the round
  trip from a form whose \<open>qth_type\<close> is \<open>portable\<close>, the fresh form reads \<open>home\<close> there,
  which is not the empty string of an unset field.
\<close>

theorem round_trip_choice_counterexample:
  "value_of (gui_object [''callsign'' \<mapsto> Entry ''EA7HQL'',
                         ''qth_type'' \<mapsto> StringVar ''portable'']) ''qth_type'' = ''portable'' \<and>
   value_of (fst (load_settings timeout_env
       (form timeout_env,
        snd (save_settings timeout_env
          (gui_object [''callsign'' \<mapsto> Entry ''EA7HQL'',
                       ''qth_type'' \<mapsto> StringVar ''portable''],
           empty_world))))) ''qth_type'' = ''home''"
proof (rule conjI)
  show "value_of (gui_object [''callsign'' \<mapsto> Entry ''EA7HQL'',
                         ''qth_type'' \<mapsto> StringVar ''portable'']) ''qth_type'' = ''portable''"
    by (simp add: value_of_gui gui_object_def)
next
  let ?self = "gui_object [''callsign'' \<mapsto> Entry ''EA7HQL'',
                           ''qth_type'' \<mapsto> StringVar ''portable'']"
  let ?settings = "collect_settings save_fields ?self []"
  let ?w1 = "snd (save_settings timeout_env (?self, empty_world))"
  have written: "files ?w1 (settings_file (form timeout_env)) = Some (Json ?settings)"
    by (simp add: save_settings_def Let_def timeout_env_def messagebox_def gui_object_def
                  form_settings_file)
  have "fst ` set ?settings \<subseteq> set save_fields"
    using collect_settings_keys [of save_fields ?self "[]"] by simp
  moreover have "''qth_type'' \<notin> set save_fields"
    by (simp add: save_fields_def)
  ultimately have unnamed: "''qth_type'' \<notin> fst ` set ?settings"
    by blast
  define self2 where "self2 = fst (load_settings timeout_env (form timeout_env, ?w1))"
  have "fields_dict self2 ''qth_type'' = fields_dict (form timeout_env) ''qth_type''"
    using written unnamed
    by (simp add: self2_def load_settings_def update_status_frame apply_settings_untouched)
  moreover have "root self2"
    using written
    by (simp add: self2_def load_settings_def update_status_frame apply_settings_frame
                  form_root)
  ultimately have "value_of self2 ''qth_type'' = ''home''"
    by (simp add: value_of_gui form_fields)
  then show "value_of (fst (load_settings timeout_env
       (form timeout_env,
        snd (save_settings timeout_env
          (gui_object [''callsign'' \<mapsto> Entry ''EA7HQL'',
                       ''qth_type'' \<mapsto> StringVar ''portable''],
           empty_world))))) ''qth_type'' = ''home''"
    by (simp add: self2_def)
qed

lemma insert_defaults_frame:
  "root (insert_defaults items self) = root self \<and>
   settings_file (insert_defaults items self) = settings_file self \<and>
   status_label (insert_defaults items self) = status_label self \<and>
   data (insert_defaults items self) = data self"
  by (induction items self rule: insert_defaults.induct)
     (auto split: option.splits widget.splits)

lemma insert_defaults_fields:
  "distinct (map fst items) \<Longrightarrow>
   fields_dict (insert_defaults items self) n =
     (case map_of items n of
        None \<Rightarrow> fields_dict self n
      | Some v \<Rightarrow>
          (case fields_dict self n of
             None \<Rightarrow> None
           | Some (StringVar old) \<Rightarrow> Some (StringVar old)
           | Some (Entry text) \<Rightarrow> Some (Entry (v @ text))))"
proof (induction items self rule: insert_defaults.induct)
  case (1 self)
  then show ?case by simp
next
  case (2 field_name v items self)
  have fresh: "map_of items field_name = None"
    using "2.prems" by (simp add: map_of_eq_None_iff)
  show ?case
    using "2.IH" "2.prems" fresh
    by (auto split: option.splits widget.splits)
qed

lemma form_entry_defaults:
  "n \<in> fst ` set defaults \<Longrightarrow> fields_dict (form env) n = Some (Entry '''')"
  unfolding form_fields by (auto simp: defaults_def)

lemma form_status: "status_label (form env) = Some ''Ready''"
  by (simp add: form_def setup_status_bar_def setup_station_tab_def setup_contact_tab_def
                new_entry_def new_stringvar_def Let_def)

text \<open>
  Claim C6. When the form is first built and no settings file exists, loading shows no
  error: the world is left as it was, the status bar tells that the defaults were
  loaded, every field of the built-in table \<open>defaults\<close> reads as its value there, every
  other widget is as the form was built, and every field reads as in the defaults of
  command-line mode.
\<close>

theorem first_load_defaults:
  assumes "files w (settings_file (form env)) = None"
  shows "(let (self, w') = init True env w
          in w' = w \<and>
             status_label self = Some ''Default values loaded (no saved settings found)'' \<and>
             (\<forall>(name, v) \<in> set defaults. value_of self name = v) \<and>
             (\<forall>name. name \<notin> fst ` set defaults \<longrightarrow>
                fields_dict self name = fields_dict (form env) name) \<and>
             (\<forall>name. value_of self name = value_of (fst (init False env w)) name))"
proof -
  define self where
    "self = update_status ''Default values loaded (no saved settings found)''
              (insert_defaults defaults (form env))"
  define cli where "cli = fst (init False env w)"
  have init_gui: "init True env w = (self, w)"
    using assms by (simp add: init_def load_settings_def self_def)
  have root_self: "root self"
    by (simp add: self_def update_status_frame insert_defaults_frame form_root)
  have status: "status_label self = Some ''Default values loaded (no saved settings found)''"
    by (simp add: self_def update_status_def insert_defaults_frame form_status)
  have dist: "distinct (map fst defaults)"
    by (simp add: defaults_def)
  have fields_self: "fields_dict self name =
      (case map_of defaults name of
         None \<Rightarrow> fields_dict (form env) name
       | Some v \<Rightarrow>
           (case fields_dict (form env) name of
              None \<Rightarrow> None
            | Some (StringVar old) \<Rightarrow> Some (StringVar old)
            | Some (Entry text) \<Rightarrow> Some (Entry (v @ text))))" for name
    using insert_defaults_fields [OF dist, of "form env" name]
    by (simp add: self_def update_status_frame)
  have gui_value: "value_of self name =
      (case fields_dict self name of
         None \<Rightarrow> ''''
       | Some (Entry text) \<Rightarrow> text
       | Some (StringVar v) \<Rightarrow> v)" for name
    by (rule value_of_gui [OF root_self])
  have cli_value: "value_of cli name =
      (case data cli name of None \<Rightarrow> '''' | Some v \<Rightarrow> v)" for name
    by (rule value_of_cli) (simp add: cli_def init_def init_cli_defaults_def)
  have table: "value_of self name = v" if "(name, v) \<in> set defaults" for name v
  proof -
    have "map_of defaults name = Some v"
      using dist that by simp
    moreover have "fields_dict (form env) name = Some (Entry '''')"
      using that by (intro form_entry_defaults) force
    ultimately show ?thesis
      by (simp add: gui_value fields_self)
  qed
  have others: "fields_dict self name = fields_dict (form env) name"
    if "name \<notin> fst ` set defaults" for name
  proof -
    have "map_of defaults name = None"
      using that by (simp add: map_of_eq_None_iff)
    then show ?thesis
      by (simp add: fields_self)
  qed
  have same: "value_of self name = value_of cli name" for name
  proof (cases "name \<in> set (map fst defaults) \<union>
                  {''via'', ''to_station'', ''their_call'', ''date'', ''time'', ''band'',
                   ''mode'', ''report'', ''portable_location'', ''qth_type'', ''qsl_type'',
                   ''qsl_request''}")
    case True
    then show ?thesis
      unfolding gui_value fields_self form_fields cli_value
      by (auto simp: defaults_def cli_def init_def init_cli_defaults_def)
  next
    case False
    then show ?thesis
      unfolding gui_value fields_self form_fields cli_value
      by (simp add: defaults_def cli_def init_def init_cli_defaults_def)
  qed
  show ?thesis
    unfolding init_gui Let_def prod.case cli_def [symmetric]
    using status table others same by blast
qed

theorem first_load_defaults_witness:
  "files empty_world (settings_file (form timeout_env)) = None \<and>
   snd (init True timeout_env empty_world) = empty_world \<and>
   value_of (fst (init True timeout_env empty_world)) ''callsign'' = ''EA7HQL'' \<and>
   value_of (fst (init True timeout_env empty_world)) ''logo3_scale'' = ''0.1'' \<and>
   value_of (fst (init True timeout_env empty_world)) ''qsl_request'' = ''tnx'' \<and>
   value_of (fst (init True timeout_env empty_world)) ''date'' = ''''"
proof -
  have h: "files empty_world (settings_file (form timeout_env)) = None"
    by (simp add: empty_world_def)
  have t: "(''callsign'', ''EA7HQL'') \<in> set defaults \<and> (''logo3_scale'', ''0.1'') \<in> set defaults"
    by (simp add: defaults_def)
  have c: "value_of (fst (init False timeout_env empty_world)) ''qsl_request'' = ''tnx'' \<and>
           value_of (fst (init False timeout_env empty_world)) ''date'' = ''''"
    by (simp add: value_of_cli init_def init_cli_defaults_def)
  show ?thesis
    using first_load_defaults [OF h] h t c
    by (auto simp: Let_def split_beta)
qed

section \<open>The scratch directory of \<open>generate_pdf\<close>\<close>

lemma read_image_files_run:
  "read_image_files self =
     (Inr [py_or (value_of self ''background_image'') ''foto_antenas.jpg'',
           py_or (value_of self ''logo1'') ''logo_ure_negro.png'',
           py_or (value_of self ''logo2'') ''qrz_com.png'',
           py_or (value_of self ''logo3'') ''lotw.png''], self)"
  unfolding read_image_files_def
  by (simp only: bind_get_field_value py_return_def)

lemma foldr_max_upper: "k \<in> set ks \<Longrightarrow> k \<le> foldr max ks (0::nat)"
  by (induction ks) auto

lemma mkdtemp_fresh: "fst (mkdtemp w) \<notin> fst ` set (temp_dirs w)"
proof
  assume "fst (mkdtemp w) \<in> fst ` set (temp_dirs w)"
  then have "Suc (foldr max (map fst (temp_dirs w)) 0) \<in> set (map fst (temp_dirs w))"
    by (simp add: mkdtemp_def Let_def)
  from foldr_max_upper [OF this] show False
    by simp
qed

lemma mkdtemp_world:
  "snd (mkdtemp w) = w\<lparr>temp_dirs := temp_dirs w @ [(fst (mkdtemp w), [])]\<rparr>"
  by (simp add: mkdtemp_def Let_def)

lemma map_fst_map_entry: "map fst (AList.map_entry k f al) = map fst al"
  by (induction al) auto

lemma map_fst_delete: "map fst (AList.delete k al) = removeAll k (map fst al)"
  by (induction al) auto

lemma temp_write_frame:
  "map fst (temp_dirs (temp_write temp_dir name content w)) = map fst (temp_dirs w) \<and>
   files (temp_write temp_dir name content w) = files w \<and>
   dialogs (temp_write temp_dir name content w) = dialogs w"
  by (simp add: temp_write_def map_fst_map_entry)

lemma temp_write_keeps:
  "temp_read d n w \<noteq> None \<Longrightarrow> temp_read d n (temp_write d' n' content w) \<noteq> None"
  by (auto simp: temp_read_def temp_write_def map_of_map_entry update_conv'
           split: option.splits)

lemma temp_write_read:
  "d \<in> fst ` set (temp_dirs w) \<Longrightarrow> temp_read d n (temp_write d n content w) = Some content"
  by (auto simp: temp_read_def temp_write_def map_of_map_entry update_conv'
                 map_of_eq_None_iff
           split: option.splits)

lemma stage_images_frame:
  "map fst (temp_dirs (fst (stage_images d imgs w missing))) = map fst (temp_dirs w) \<and>
   files (fst (stage_images d imgs w missing)) = files w \<and>
   dialogs (fst (stage_images d imgs w missing)) = dialogs w"
  by (induction d imgs w missing rule: stage_images.induct)
     (auto simp: temp_write_frame split: option.splits)

lemma stage_images_keeps:
  "temp_read d n w \<noteq> None \<Longrightarrow> temp_read d n (fst (stage_images d imgs w missing)) \<noteq> None"
  by (induction d imgs w missing rule: stage_images.induct)
     (auto simp: temp_write_keeps split: option.splits)

lemma messagebox_frame:
  "temp_dirs (messagebox dlg w) = temp_dirs w \<and> files (messagebox dlg w) = files w \<and>
   dialogs (messagebox dlg w) = dialogs w @ [dlg]"
  by (simp add: messagebox_def)

lemma temp_read_messagebox: "temp_read d n (messagebox dlg w) = temp_read d n w"
  by (simp add: temp_read_def messagebox_def)

lemma update_status_label:
  "status_label (update_status message self) =
     (if status_label self = None then None else Some message)"
  by (simp add: update_status_def split: option.splits)

text \<open>
  Claim C7, on the code. When \<open>pdflatex\<close> is installed, the user goes on when asked and
  the run does not end in time, \<open>generate_pdf\<close> reports the time-out in a dialog and in the
  status bar, and the scratch directory made by this call is still there afterwards,
  with the staged \<open>qsl_card.tex\<close> in it: the handler of the time-out never removes it.
\<close>

theorem timeout_leaves_scratch:
  assumes "which_pdflatex env" and "pdflatex_run env = TimeoutExpired"
    and "askyesno_answer env"
  shows "(let (self', w') = generate_pdf env (self, w);
              temp_dir = fst (mkdtemp w)
          in last (dialogs w') =
               ShowError ''Error'' ''PDF generation timed out. Check your LaTeX installation.'' \<and>
             status_label self' =
               (if status_label self = None then None else Some ''PDF generation timed out'') \<and>
             temp_dir \<notin> fst ` set (temp_dirs w) \<and>
             map fst (temp_dirs w') = map fst (temp_dirs w) @ [temp_dir] \<and>
             temp_read temp_dir ''qsl_card.tex'' w' \<noteq> None)"
proof -
  define self0 where "self0 = update_status ''Generating PDF...'' self"
  define d where "d = fst (mkdtemp w)"
  define w2 where "w2 = temp_write d ''qsl_card.tex'' (Text (rendered self0)) (snd (mkdtemp w))"
  define imgs where "imgs = [py_or (value_of self0 ''background_image'') ''foto_antenas.jpg'',
           py_or (value_of self0 ''logo1'') ''logo_ure_negro.png'',
           py_or (value_of self0 ''logo2'') ''qrz_com.png'',
           py_or (value_of self0 ''logo3'') ''lotw.png'']"
  define w3 where "w3 = fst (stage_images d imgs w2 [])"
  define missing where "missing = snd (stage_images d imgs w2 [])"
  define w4 where "w4 = (if missing \<noteq> [] then
                           messagebox (AskYesNo ''Missing Images''
                                         (missing_images_message missing)) w3
                         else w3)"
  define self1 where "self1 = update_status ''Running pdflatex (this may take a moment)...'' self0"
  have raised: "generate_pdf_try env (self0, w) = (Some RaisedTimeoutExpired, self1, w4)"
    using assms(2,3)
    by (simp add: generate_pdf_try_def generate_latex_code_run read_image_files_run
                  Let_def split_beta self1_def w4_def missing_def w3_def imgs_def w2_def d_def
             del: stage_images.simps)
  have result: "generate_pdf env (self, w) =
      (update_status ''PDF generation timed out'' self1,
       messagebox (ShowError ''Error''
          ''PDF generation timed out. Check your LaTeX installation.'') w4)"
    using assms(1) raised by (simp add: generate_pdf_def self0_def)
  have fresh: "d \<notin> fst ` set (temp_dirs w)"
    unfolding d_def by (rule mkdtemp_fresh)
  have keys1: "map fst (temp_dirs (snd (mkdtemp w))) = map fst (temp_dirs w) @ [d]"
    by (simp add: mkdtemp_world d_def)
  have keys4: "map fst (temp_dirs w4) = map fst (temp_dirs w) @ [d]"
    using keys1
    by (simp add: w4_def w3_def w2_def stage_images_frame temp_write_frame messagebox_frame)
  have "d \<in> fst ` set (temp_dirs (snd (mkdtemp w)))"
    using keys1 by (metis image_set in_set_conv_decomp)
  then have "temp_read d ''qsl_card.tex'' w2 \<noteq> None"
    by (simp add: w2_def temp_write_read)
  then have "temp_read d ''qsl_card.tex'' w3 \<noteq> None"
    unfolding w3_def by (rule stage_images_keeps)
  then have tex: "temp_read d ''qsl_card.tex'' w4 \<noteq> None"
    by (simp add: w4_def temp_read_messagebox)
  have status: "status_label (update_status ''PDF generation timed out'' self1) =
      (if status_label self = None then None else Some ''PDF generation timed out'')"
    by (simp add: update_status_label self1_def self0_def)
  show ?thesis
    unfolding result Let_def prod.case d_def [symmetric]
    using fresh keys4 tex status
    by (simp add: messagebox_frame temp_read_messagebox)
qed

theorem timeout_leaves_scratch_witness:
  "which_pdflatex timeout_env \<and> pdflatex_run timeout_env = TimeoutExpired \<and>
   askyesno_answer timeout_env \<and>
   status_label (fst (generate_pdf timeout_env (form timeout_env, empty_world))) =
     Some ''PDF generation timed out'' \<and>
   map fst (temp_dirs (snd (generate_pdf timeout_env (form timeout_env, empty_world)))) = [1] \<and>
   temp_read 1 ''qsl_card.tex''
     (snd (generate_pdf timeout_env (form timeout_env, empty_world))) \<noteq> None"
proof -
  have h: "which_pdflatex timeout_env" "pdflatex_run timeout_env = TimeoutExpired"
          "askyesno_answer timeout_env"
    by (simp_all add: timeout_env_def)
  have d: "fst (mkdtemp empty_world) = 1" "temp_dirs empty_world = []"
    by (simp_all add: mkdtemp_def empty_world_def)
  show ?thesis
    using timeout_leaves_scratch [OF h, of "form timeout_env" empty_world] h d form_status
    by (simp add: Let_def split_beta)
qed

text \<open>
  Every path of the \<open>try\<close> body that returns (the user declining, or the run completing
  with or without a PDF) removes the scratch directory it made; every path that raises
  leaves it, since neither handler of \<open>generate_pdf\<close> removes anything.
\<close>

lemma after_run_temp_dirs:
  "temp_dirs (snd (snd (after_run env d stderr (self, w)))) = temp_dirs w"
  by (simp add: after_run_def Let_def messagebox_def split: option.splits)

lemma rmtree_made:
  "map fst (temp_dirs w') = ks @ [d] \<Longrightarrow> d \<notin> set ks \<Longrightarrow>
   map fst (temp_dirs (rmtree d w')) = ks"
  by (simp add: rmtree_def map_fst_delete)

lemma try_body_scratch:
  assumes "generate_pdf_try env (self, w) = (r, self', w')"
  shows "map fst (temp_dirs w') =
           (if r = None then map fst (temp_dirs w)
            else map fst (temp_dirs w) @ [fst (mkdtemp w)])"
proof -
  define d where "d = fst (mkdtemp w)"
  define w2 where "w2 = temp_write d ''qsl_card.tex'' (Text (rendered self)) (snd (mkdtemp w))"
  define imgs where "imgs = [py_or (value_of self ''background_image'') ''foto_antenas.jpg'',
           py_or (value_of self ''logo1'') ''logo_ure_negro.png'',
           py_or (value_of self ''logo2'') ''qrz_com.png'',
           py_or (value_of self ''logo3'') ''lotw.png'']"
  define w3 where "w3 = fst (stage_images d imgs w2 [])"
  define missing where "missing = snd (stage_images d imgs w2 [])"
  define w4 where "w4 = (if missing \<noteq> [] then
                           messagebox (AskYesNo ''Missing Images''
                                         (missing_images_message missing)) w3
                         else w3)"
  define self1 where
    "self1 = update_status ''Running pdflatex (this may take a moment)...'' self"
  have fresh: "d \<notin> set (map fst (temp_dirs w))"
    using mkdtemp_fresh [of w] by (simp add: d_def)
  have keys4: "map fst (temp_dirs w4) = map fst (temp_dirs w) @ [d]"
    by (simp add: w4_def w3_def w2_def stage_images_frame temp_write_frame messagebox_frame
                  mkdtemp_world d_def)
  have made: "map fst (temp_dirs (rmtree d w'')) = map fst (temp_dirs w)"
    if "map fst (temp_dirs w'') = map fst (temp_dirs w4)" for w''
    using that keys4 fresh by (simp add: rmtree_made)
  have body: "generate_pdf_try env (self, w) =
      (if missing \<noteq> [] \<and> \<not> askyesno_answer env then
         (None, update_status ''PDF generation cancelled'' self, rmtree d w4)
       else
         (case pdflatex_run env of
            TimeoutExpired \<Rightarrow> (Some RaisedTimeoutExpired, self1, w4)
          | OtherException e \<Rightarrow> (Some (RaisedException e), self1, w4)
          | Completed pdf log stderr \<Rightarrow>
              (let w5 = (case pdf of
                           None \<Rightarrow> w4
                         | Some content \<Rightarrow> temp_write d ''qsl_card.pdf'' content w4);
                   w6 = (case log of
                           None \<Rightarrow> w5
                         | Some t \<Rightarrow> temp_write d ''qsl_card.log'' (Text t) w5)
               in case after_run env d stderr (self1, w6) of
                    (Some e, s, v) \<Rightarrow> (Some e, s, v)
                  | (None, s, v) \<Rightarrow> (None, s, rmtree d v))))"
    by (simp add: generate_pdf_try_def generate_latex_code_run read_image_files_run
                  Let_def split_beta self1_def w4_def missing_def w3_def imgs_def w2_def d_def
             del: stage_images.simps split: run_result.splits option.splits)
  show ?thesis
  proof (cases "missing \<noteq> [] \<and> \<not> askyesno_answer env")
    case True
    then have "r = None \<and> w' = rmtree d w4"
      using assms body by simp
    then show ?thesis
      by (simp add: made)
  next
    case False
    show ?thesis
    proof (cases "pdflatex_run env")
      case (Completed pdf log stderr)
      define w6 where "w6 = (case log of
                           None \<Rightarrow>
                             (case pdf of
                                None \<Rightarrow> w4
                              | Some content \<Rightarrow> temp_write d ''qsl_card.pdf'' content w4)
                         | Some t \<Rightarrow>
                             temp_write d ''qsl_card.log'' (Text t)
                               (case pdf of
                                  None \<Rightarrow> w4
                                | Some content \<Rightarrow> temp_write d ''qsl_card.pdf'' content w4))"
      obtain r1 s1 v1 where run: "after_run env d stderr (self1, w6) = (r1, s1, v1)"
        by (cases "after_run env d stderr (self1, w6)") auto
      have keys6: "map fst (temp_dirs w6) = map fst (temp_dirs w4)"
        by (simp add: w6_def temp_write_frame split: option.splits)
      have "temp_dirs v1 = temp_dirs w6"
        using after_run_temp_dirs [of env d stderr self1 w6] run by simp
      then have keys: "map fst (temp_dirs v1) = map fst (temp_dirs w4)"
        using keys6 by simp
      show ?thesis
      proof (cases r1)
        case None
        then have "r = None \<and> w' = rmtree d v1"
          using assms body False Completed run by (simp add: Let_def w6_def)
        then show ?thesis
          using made [OF keys] by simp
      next
        case (Some e)
        then have "r = Some e \<and> w' = v1"
          using assms body False Completed run by (simp add: Let_def w6_def)
        then show ?thesis
          using keys keys4 by (simp add: d_def)
      qed
    next
      case TimeoutExpired
      then show ?thesis
        using assms body False keys4 by (auto simp: d_def)
    next
      case (OtherException e)
      then show ?thesis
        using assms body False keys4 by (auto simp: d_def)
    qed
  qed
qed

lemma returning_paths_clean_up:
  "generate_pdf_try env (self, w) = (None, self', w') \<Longrightarrow>
   map fst (temp_dirs w') = map fst (temp_dirs w)"
  using try_body_scratch [of env self w None self' w'] by simp

lemma raising_paths_leave_scratch:
  "generate_pdf_try env (self, w) = (Some r, self', w') \<Longrightarrow>
   map fst (temp_dirs w') = map fst (temp_dirs w) @ [fst (mkdtemp w)]"
  using try_body_scratch [of env self w "Some r" self' w'] by simp

end
